theory Spec2Isabelle
  imports Complex_Main
begin

section \<open>Strings and the character stream\<close>

text \<open>
  Python's \<open>s.startswith(p)\<close> and \<open>sub in s\<close> on strings, and \<open>stream.readline()\<close>:
  the characters up to and including the first newline, or the rest of the stream when it
  holds no newline; the empty string at end of stream.
\<close>

fun startswith :: "string \<Rightarrow> string \<Rightarrow> bool" where
  "startswith s [] = True"
| "startswith [] (p # ps) = False"
| "startswith (x # xs) (p # ps) = (x = p \<and> startswith xs ps)"

fun contains :: "string \<Rightarrow> string \<Rightarrow> bool" where
  "contains sub [] = (sub = [])"
| "contains sub (x # xs) = (startswith (x # xs) sub \<or> contains sub xs)"

abbreviation nl :: string where
  "nl \<equiv> [CHR 0x0A]"

fun readline_str :: "string \<Rightarrow> string \<times> string" where
  "readline_str [] = ([], [])"
| "readline_str (x # xs) =
     (if x = CHR 0x0A then ([x], xs)
      else (case readline_str xs of (l, r) \<Rightarrow> (x # l, r)))"

section \<open>Regular expressions as \<open>re.match\<close> runs them\<close>

text \<open>
  The patterns of the parser use literals, character classes, greedy repetition of a
  character class, optional groups, alternation, capturing groups and the anchors
  \<open>^\<close> and \<open>$\<close>. \<open>rmatch\<close> is the backtracking matcher of Python's \<open>re\<close>: it tries
  the alternatives in priority order (longest repetition first, left alternative first,
  an optional part present first) and answers with the first one whose continuation
  succeeds. \<open>.\<close> matches every character but the newline; \<open>$\<close> holds at the end of the
  subject and just before a newline that ends it.
\<close>

datatype cset = CAny | CDigit | COneOf string

fun in_cset :: "cset \<Rightarrow> char \<Rightarrow> bool" where
  "in_cset CAny x = (x \<noteq> CHR 0x0A)"
| "in_cset CDigit x = (x \<in> set ''0123456789'')"
| "in_cset (COneOf cs) x = (x \<in> set cs)"

datatype regex =
    Lit string
  | One cset
  | Star cset
  | Plus cset
  | Times nat cset
  | Opt regex
  | Alt regex regex
  | Seq regex regex
  | Group string regex
  | Bol
  | Eol

type_synonym caps = "(string \<times> string) list"

fun greedy :: "(string \<Rightarrow> 'a option) \<Rightarrow> string \<Rightarrow> nat \<Rightarrow> nat \<Rightarrow> 'a option" where
  "greedy k s lo 0 = (if lo = 0 then k s else None)"
| "greedy k s lo (Suc n) =
     (if Suc n < lo then None
      else (case k (drop (Suc n) s) of
              Some r \<Rightarrow> Some r
            | None \<Rightarrow> greedy k s lo n))"

fun rmatch :: "regex \<Rightarrow> string \<Rightarrow> string \<Rightarrow> caps \<Rightarrow> (string \<Rightarrow> caps \<Rightarrow> 'a option) \<Rightarrow> 'a option" where
  "rmatch (Lit w) whole s c k = (if startswith s w then k (drop (length w) s) c else None)"
| "rmatch (One cs) whole s c k =
     (case s of [] \<Rightarrow> None | x # xs \<Rightarrow> if in_cset cs x then k xs c else None)"
| "rmatch (Star cs) whole s c k = greedy (\<lambda>s'. k s' c) s 0 (length (takeWhile (in_cset cs) s))"
| "rmatch (Plus cs) whole s c k = greedy (\<lambda>s'. k s' c) s 1 (length (takeWhile (in_cset cs) s))"
| "rmatch (Times n cs) whole s c k =
     (if n \<le> length (takeWhile (in_cset cs) s) then k (drop n s) c else None)"
| "rmatch (Opt r) whole s c k =
     (case rmatch r whole s c k of Some x \<Rightarrow> Some x | None \<Rightarrow> k s c)"
| "rmatch (Alt a b) whole s c k =
     (case rmatch a whole s c k of Some x \<Rightarrow> Some x | None \<Rightarrow> rmatch b whole s c k)"
| "rmatch (Seq a b) whole s c k = rmatch a whole s c (\<lambda>s' c'. rmatch b whole s' c' k)"
| "rmatch (Group g r) whole s c k =
     rmatch r whole s c (\<lambda>s' c'. k s' ((g, take (length s - length s') s) # c'))"
| "rmatch Bol whole s c k = (if length s = length whole then k s c else None)"
| "rmatch Eol whole s c k = (if s = [] \<or> s = nl then k s c else None)"

definition re_match :: "regex \<Rightarrow> string \<Rightarrow> caps option" where
  "re_match r s = rmatch r s s [] (\<lambda>s' c. Some c)"

definition group :: "caps \<Rightarrow> string \<Rightarrow> string option" where
  "group c g = map_of c g"

fun seqs :: "regex list \<Rightarrow> regex" where
  "seqs [] = Lit []"
| "seqs [r] = r"
| "seqs (r # rs) = Seq r (seqs rs)"

definition tournament_header_re :: regex where
  "tournament_header_re = seqs
     [Bol, Lit ''PokerStars Hand #'', Group ''ident'' (Star CDigit), Lit '': '',
      Group ''game_type'' (Lit ''Tournament''), Lit '' #'',
      Group ''tournament_ident'' (Star CDigit), Lit '', $'',
      Group ''buyin'' (seqs [Star CDigit, Lit ''.'', Times 2 CDigit]), Lit ''+$'',
      Group ''rake'' (seqs [Star CDigit, Lit ''.'', Times 2 CDigit]), Lit '' '',
      Group ''currency'' (Alt (Lit ''USD'') (Lit ''EUR'')), Lit '' '',
      Group ''game'' (Star CAny), Lit '' '',
      Group ''limit'' (Lit ''No Limit''), Lit '' - Level '',
      Group ''tournament_level'' (Star CAny), Lit '' ('',
      Group ''sb'' (Star CAny), Lit ''/'', Group ''bb'' (Star CAny), Lit '') - '',
      Star CAny, Lit '' ['', Group ''date'' (Star CAny), Lit '']'', Eol]"

definition cash_header_re :: regex where
  "cash_header_re = seqs
     [Bol, Lit ''PokerStars Hand #'', Group ''ident'' (Star CDigit), Lit '':  '',
      Group ''game_type'' (Lit (''Hold'' @ [CHR 0x27] @ ''em No Limit'')), Lit '' ($'',
      Group ''sb'' (Star CAny), Lit ''/$'', Group ''bb'' (Star CAny), Lit '' '',
      Group ''currency'' (Star CAny), Lit '') - '', Group ''date'' (Star CAny)]"

definition table_re :: regex where
  "table_re = seqs
     [Bol, Lit (''Table '' @ [CHR 0x27]), Group ''name'' (Star CAny), Lit ([CHR 0x27] @ '' ''),
      Group ''seats'' (One CDigit), Lit ''-max Seat #'', Group ''button'' (One CDigit),
      Lit '' is the button'', Eol]"

definition seat_re :: regex where
  "seat_re = seqs
     [Bol, Lit ''Seat '', Group ''seat'' (One CDigit), Lit '': '', Group ''name'' (Star CAny),
      Lit '' ('', Opt (Lit ''$''), Group ''stack'' (Star CAny), Lit '' in chips)'', Star CAny]"

definition hero_re :: regex where
  "hero_re = seqs
     [Bol, Lit ''Dealt to '', Group ''name'' (Star CAny), Lit '' ['',
      Group ''card1'' (Times 2 CAny), Lit '' '', Group ''card2'' (Times 2 CAny), Lit '']'', Eol]"

definition blind_re :: regex where
  "blind_re = seqs
     [Group ''1'' (Star CAny), Lit '': posts '',
      Group ''2'' (Alt (Lit ''small'') (Alt (Lit ''big'') (Lit ''small & big''))),
      Lit '' blind'', Opt (One (COneOf ''s'')), Lit '' '', Opt (Lit ''$''),
      Group ''3'' (Star CAny)]"

definition action_re :: regex where
  "action_re = seqs
     [Group ''name'' (Star CAny), Lit '': '',
      Group ''action''
        (Alt (Lit ''checks'') (Alt (Lit ''folds'') (Alt (Lit ''calls'')
          (Alt (Lit ''bets'') (Lit ''raises''))))),
      Lit '' '', Opt (Lit ''$''),
      Opt (Group ''value'' (Seq (Plus CDigit) (Group ''4'' (Seq (Lit ''.'') (Star CDigit))))),
      Star CAny]"

definition flop_re :: regex where
  "flop_re = seqs
     [Lit ''*** FLOP *** ['',
      Group ''1'' (Seq (One (COneOf ''23456789TJQKA'')) (One (COneOf ''cdhs''))), Lit '' '',
      Group ''2'' (Seq (One (COneOf ''23456789TJQKA'')) (One (COneOf ''cdhs''))), Lit '' '',
      Group ''3'' (Seq (One (COneOf ''23456789TJQKA'')) (One (COneOf ''cdhs''))), Lit '']'',
      Star CAny]"

definition turn_re :: regex where
  "turn_re = seqs
     [Lit ''*** TURN *** ['', Times 8 CAny, Lit ''] ['', Group ''1'' (Times 2 CAny), Lit '']'',
      Star CAny]"

definition river_re :: regex where
  "river_re = seqs
     [Lit ''*** RIVER *** ['', Times 11 CAny, Lit ''] ['', Group ''1'' (Times 2 CAny), Lit '']'',
      Star CAny]"

definition showdown_re :: regex where
  "showdown_re = seqs
     [Group ''1'' (Star CAny), Lit '': shows ['', Group ''2'' (Times 2 CAny), Lit '' '',
      Group ''3'' (Times 2 CAny), Lit '']'', Star CAny]"

lemmas re_defs =
  re_match_def tournament_header_re_def cash_header_re_def table_re_def seat_re_def hero_re_def
  blind_re_def action_re_def flop_re_def turn_re_def river_re_def showdown_re_def


section \<open>Errors and the values of the hand record\<close>

text \<open>
  Every exception the parser can raise is a value: \<open>ParseException\<close> carries the line the
  source passes to it, \<open>PlainException\<close> the message of a bare \<open>Exception\<close>. The others are
  Python's built-in exceptions. \<open>NameResolutionFailure\<close> is the failure of the seat lookup,
  \<open>CardinalityFailure\<close> the failure of a board that would reach a length it cannot have.
\<close>

datatype error =
    ParseException string
  | PlainException string
  | AssertionError
  | IOError
  | AttributeError
  | TypeError
  | ValueError
  | IndexError
  | ZeroDivisionError
  | NameResolutionFailure
  | CardinalityFailure

fun ebind :: "error + 'a \<Rightarrow> ('a \<Rightarrow> error + 'b) \<Rightarrow> error + 'b" where
  "ebind (Inl e) f = Inl e"
| "ebind (Inr x) f = f x"

text \<open>
  \<open>Fraction(s)\<close> of Python's standard library on a string: optional white space, an
  optional sign, then digits with an optional denominator, or a decimal number with an
  optional exponent, then optional white space. \<open>Fraction(None)\<close> is a \<open>TypeError\<close>,
  anything else a \<open>ValueError\<close>. The result is an exact rational.
\<close>

definition is_space :: "char \<Rightarrow> bool" where
  "is_space x = (x \<in> set [CHR '' '', CHR 0x09, CHR 0x0A, CHR 0x0B, CHR 0x0C, CHR 0x0D])"

definition is_digit :: "char \<Rightarrow> bool" where
  "is_digit x = (x \<in> set ''0123456789'')"

definition digit_val :: "char \<Rightarrow> nat" where
  "digit_val x = length (takeWhile (\<lambda>d. d \<noteq> x) ''0123456789'')"

definition int_of_digits :: "string \<Rightarrow> nat" where
  "int_of_digits ds = foldl (\<lambda>a x. 10 * a + digit_val x) 0 ds"

definition fraction_lookahead :: "string \<Rightarrow> bool" where
  "fraction_lookahead s =
     (case s of
        [] \<Rightarrow> False
      | x # xs \<Rightarrow> is_digit x \<or> (x = CHR ''.'' \<and> (case xs of [] \<Rightarrow> False | y # ys \<Rightarrow> is_digit y)))"

definition fraction_exponent :: "string \<Rightarrow> (int \<times> string) option" where
  "fraction_exponent s =
     (if startswith s ''E'' \<or> startswith s ''e'' then
        (let t = tl s;
             neg = startswith t ''-'';
             u = (if startswith t ''-'' \<or> startswith t ''+'' then tl t else t);
             ds = takeWhile is_digit u
         in if ds = [] then None
            else Some ((if neg then - int (int_of_digits ds) else int (int_of_digits ds)),
                       dropWhile is_digit u))
      else None)"

definition Fraction_str :: "string \<Rightarrow> error + rat" where
  "Fraction_str s =
     (let s1 = dropWhile is_space s;
          neg = startswith s1 ''-'';
          s2 = (if startswith s1 ''-'' \<or> startswith s1 ''+'' then tl s1 else s1);
          num = int_of_digits (takeWhile is_digit s2);
          s3 = dropWhile is_digit s2;
          sign = (if neg then -1 else 1 :: rat)
      in if \<not> fraction_lookahead s2 then Inl ValueError
         else if startswith s3 ''/'' \<and> takeWhile is_digit (tl s3) \<noteq> []
                 \<and> list_all is_space (dropWhile is_digit (tl s3)) then
           (let den = int_of_digits (takeWhile is_digit (tl s3))
            in if den = 0 then Inl ZeroDivisionError
               else Inr (sign * (of_nat num / of_nat den)))
         else
           (let dec = (if startswith s3 ''.'' then takeWhile is_digit (tl s3) else []);
                s4 = (if startswith s3 ''.'' then dropWhile is_digit (tl s3) else s3);
                ex = (case fraction_exponent s4 of None \<Rightarrow> 0 | Some (e, r) \<Rightarrow> e);
                s5 = (case fraction_exponent s4 of None \<Rightarrow> s4 | Some (e, r) \<Rightarrow> r);
                n = of_nat (num * 10 ^ length dec + int_of_digits dec);
                d = of_nat (10 ^ length dec)
            in if \<not> list_all is_space s5 then Inl ValueError
               else if 0 \<le> ex then Inr (sign * (n * 10 ^ nat ex / d))
               else Inr (sign * (n / (d * 10 ^ nat (- ex))))))"

definition Fraction :: "string option \<Rightarrow> error + rat" where
  "Fraction v = (case v of None \<Rightarrow> Inl TypeError | Some s \<Rightarrow> Fraction_str s)"

text \<open>
  \<open>int(s)\<close> on a captured group. The parser only converts groups matched by a single
  \<open>\d\<close>, so the string is one decimal digit whenever it is present.
\<close>

definition int_group :: "string option \<Rightarrow> error + int" where
  "int_group v =
     (case v of
        None \<Rightarrow> Inl TypeError
      | Some s \<Rightarrow> if s \<noteq> [] \<and> list_all is_digit s then Inr (int (int_of_digits s))
                  else Inl ValueError)"

text \<open>
  Modelled from the spec: the modules \<open>card\<close>, \<open>constants\<close> and \<open>handhistory\<close> that the
  parser imports (\<open>Card\<close>, \<open>Action\<close>, \<open>Currency\<close>, \<open>Game\<close>, \<open>Limit\<close>, \<open>HandHistory\<close>,
  \<open>HoleCards\<close>, \<open>Board\<close>, \<open>PlayerAction\<close>). A card token is a rank of
  \<open>23456789TJQKA\<close> followed by a suit of \<open>cdhs\<close>, anything else is a hard error; the
  enumerations are closed sets of symbolic constants, built from the spellings the line
  formats capture; a player action holds a seat index, a kind and an optional amount;
  a seat holds an optional name, a stack and optional hole cards; a hand record is created
  empty, with \<open>max_players\<close> seats, and its board is an append-only sequence of cards.
\<close>

datatype Card = Card char char

definition Card_of :: "string option \<Rightarrow> error + Card" where
  "Card_of v =
     (case v of
        None \<Rightarrow> Inl TypeError
      | Some s \<Rightarrow>
          (case s of
             [r, u] \<Rightarrow> if r \<in> set ''23456789TJQKA'' \<and> u \<in> set ''cdhs'' then Inr (Card r u)
                       else Inl ValueError
           | _ \<Rightarrow> Inl ValueError))"

datatype Action = BLIND | ANTE | CHECK | FOLD | CALL | BET | RAISE

definition Action_of :: "string option \<Rightarrow> error + Action" where
  "Action_of v =
     (if v = Some ''checks'' then Inr CHECK
      else if v = Some ''folds'' then Inr FOLD
      else if v = Some ''calls'' then Inr CALL
      else if v = Some ''bets'' then Inr BET
      else if v = Some ''raises'' then Inr RAISE
      else Inl ValueError)"

datatype Currency = USD | EUR

definition Currency_of :: "string option \<Rightarrow> error + Currency" where
  "Currency_of v =
     (if v = Some ''USD'' then Inr USD
      else if v = Some ''EUR'' then Inr EUR
      else Inl ValueError)"

datatype Game = HOLDEM

definition Game_of :: "string option \<Rightarrow> error + Game" where
  "Game_of v = (if v = Some (''Hold'' @ [CHR 0x27] @ ''em'') then Inr HOLDEM else Inl ValueError)"

datatype Limit = NL

definition Limit_of :: "string option \<Rightarrow> error + Limit" where
  "Limit_of v = (if v = Some ''No Limit'' then Inr NL else Inl ValueError)"

type_synonym HoleCards = "Card \<times> Card"

record PlayerAction =
  seat_index :: nat
  action_kind :: Action
  amount :: "rat option"

record Seat =
  name :: "string option"
  stack :: "rat option"
  holecards :: "HoleCards option"

text \<open>
  \<open>properties\<close> is the dictionary \<open>_parse_header\<close> fills; the tournament keys are present
  only for a tournament header. \<open>HandHistory(text = None, **properties)\<close> extends it with
  the fields the section parsers fill.
\<close>

record properties =
  buyin :: "rat option"
  tournament_ident :: "string option"
  tournament_level :: "string option"
  rake :: "rat option"
  game :: "Game option"
  limit :: "Limit option"
  game_type :: "string option"
  sb :: rat
  bb :: rat
  ident :: "string option"
  currency :: Currency
  table_name :: "string option"
  max_players :: int
  button :: int

record HandHistory = properties +
  seats :: "Seat list"
  blinds :: "PlayerAction list"
  preflopactions :: "PlayerAction list option"
  flopactions :: "PlayerAction list option"
  turnactions :: "PlayerAction list option"
  riveractions :: "PlayerAction list option"
  board :: "Card list"
  showdown :: bool

definition empty_seat :: Seat where
  "empty_seat = \<lparr>name = None, stack = None, holecards = None\<rparr>"

definition HandHistory_init :: "properties \<Rightarrow> HandHistory" where
  "HandHistory_init pr =
     properties.extend pr
       (HandHistory.fields (replicate (nat (max_players pr)) empty_seat) [] None None None None
          [] False)"

text \<open>
  \<open>hh.seat(name)\<close>: the index and the seat of the first seat with that display name, by
  exact match; a name no seat has is a hard error.
\<close>

fun find_seat :: "Seat list \<Rightarrow> string option \<Rightarrow> nat \<Rightarrow> (nat \<times> Seat) option" where
  "find_seat [] nm i = None"
| "find_seat (s # ss) nm i = (if name s = nm then Some (i, s) else find_seat ss nm (Suc i))"

definition seat :: "HandHistory \<Rightarrow> string option \<Rightarrow> error + (nat \<times> Seat)" where
  "seat hh nm =
     (case find_seat (seats hh) nm 0 of
        None \<Rightarrow> Inl NameResolutionFailure
      | Some r \<Rightarrow> Inr r)"

text \<open>
  \<open>xs[i]\<close> on a Python list: a negative index counts from the end, an index out of range
  raises \<open>IndexError\<close>. The result is the position in the list.
\<close>

definition list_slot :: "'a list \<Rightarrow> int \<Rightarrow> error + nat" where
  "list_slot xs i =
     (let n = int (length xs)
      in if 0 \<le> i \<and> i < n then Inr (nat i)
         else if - n \<le> i \<and> i < 0 then Inr (nat (n + i))
         else Inl IndexError)"

text \<open>
  Modelled from the spec: the class \<open>Board\<close> of the module \<open>handhistory\<close>, which is not
  among the sources, with its method \<open>append\<close>. A board is an append-only sequence of
  0, 3, 4 or 5 cards: the flop gives three cards at once, the turn and the river add one
  card each, and any other count is a format error. So \<open>append\<close> adds the card at the end
  of a board of three or four cards, and is a cardinality failure on any other board.
\<close>

definition Board_append :: "Card list \<Rightarrow> Card \<Rightarrow> error + Card list" where
  "Board_append b c =
     (if length b = 3 \<or> length b = 4 then Inr (b @ [c]) else Inl CardinalityFailure)"


section \<open>The parser object and its cursor\<close>

text \<open>
  The parser holds a stream and the current line. The stream is its whole text
  (\<open>content\<close>, what \<open>seek(0)\<close> goes back to) and its unread part (\<open>stream\<close>).
  \<open>readline\<close> is \<open>__readline\<close>: it moves the next line of the stream into \<open>curline\<close>.
\<close>

record parser =
  content :: string
  stream :: string
  curline :: string

definition readline :: "parser \<Rightarrow> parser" where
  "readline p = (case readline_str (stream p) of (l, r) \<Rightarrow> p\<lparr>stream := r, curline := l\<rparr>)"

definition cursor_size :: "parser \<Rightarrow> nat" where
  "cursor_size p = length (stream p) + (if curline p = [] then 0 else 1)"

lemma readline_str_length:
  "length (fst (readline_str s)) + length (snd (readline_str s)) = length s"
  by (induction s) (auto split: prod.splits)

lemma readline_str_empty: "fst (readline_str s) = [] \<longleftrightarrow> s = []"
  by (cases s) (auto split: prod.splits)

lemma readline_stream_le: "length (stream (readline p)) \<le> length (stream p)"
  using readline_str_length [of "stream p"]
  by (cases "readline_str (stream p)") (auto simp: readline_def)

lemma readline_stream_less:
  "curline (readline p) \<noteq> [] \<Longrightarrow> length (stream (readline p)) < length (stream p)"
  using readline_str_length [of "stream p"] readline_str_empty [of "stream p"]
  by (cases "stream p") (auto simp: readline_def split: prod.splits)

lemma readline_cursor_less: "curline p \<noteq> [] \<Longrightarrow> cursor_size (readline p) < cursor_size p"
  using readline_str_length [of "stream p"] readline_str_empty [of "stream p"]
  by (cases "stream p") (auto simp: readline_def cursor_size_def split: prod.splits)

lemma readline_content [simp]: "content (readline p) = content p"
  by (simp add: readline_def split: prod.splits)

text \<open>
  \<open>__seek_next_header\<close>: read on until the current line starts with the room's prefix,
  or the end of the stream is reached.
\<close>

function seek_next_header :: "parser \<Rightarrow> parser" where
  "seek_next_header p =
     (if startswith (curline p) ''PokerStars'' then p
      else (if curline (readline p) = [] then readline p
            else seek_next_header (readline p)))"
  by pat_completeness auto
termination
  by (relation "measure (\<lambda>p. length (stream p))") (auto intro: readline_stream_less)

text \<open>
  The constructor. \<open>files\<close> is the file system (the text of each file that can be opened);
  the stream argument is the text of the stream passed in, if any. The second component
  of the result lists the files the call opened. A call with neither a stream nor a file
  name gives an object whose stream is \<open>None\<close>: the result \<open>Inr None\<close>.
\<close>

definition init :: "(string \<rightharpoonup> string) \<Rightarrow> string option \<Rightarrow> string option \<Rightarrow> string
    \<Rightarrow> (error + parser option) \<times> string list" where
  "init files strm filename mode =
     (if mode \<noteq> ''full'' then (Inl (PlainException ''Not implemented.''), [])
      else (case filename of
              Some fn \<Rightarrow>
                (if strm \<noteq> None then (Inl AssertionError, [])
                 else (case files fn of
                         None \<Rightarrow> (Inl IOError, [])
                       | Some t \<Rightarrow> (Inr (Some \<lparr>content = t, stream = t, curline = []\<rparr>), [fn])))
            | None \<Rightarrow>
                (case strm of
                   None \<Rightarrow> (Inr None, [])
                 | Some t \<Rightarrow> (Inr (Some \<lparr>content = t, stream = t, curline = []\<rparr>), []))))"

section \<open>The section parsers\<close>

text \<open>
  \<open>_parse_header\<close>. A line that contains \<open>Tournament\<close> is matched against the tournament
  header and its groups are read at once, so a failed match there raises
  \<open>AttributeError\<close> (\<open>None\<close> has no \<open>group\<close>) before the test for \<open>None\<close> is reached;
  any other line is matched against the cash-game header.
\<close>

record tournament_keys =
  t_buyin :: "rat option"
  t_ident :: "string option"
  t_level :: "string option"
  t_rake :: "rat option"
  t_game :: "Game option"
  t_limit :: "Limit option"

definition no_tournament_keys :: tournament_keys where
  "no_tournament_keys =
     \<lparr>t_buyin = None, t_ident = None, t_level = None, t_rake = None, t_game = None,
      t_limit = None\<rparr>"

definition header_match :: "string \<Rightarrow> error + (caps option \<times> tournament_keys)" where
  "header_match line =
     (if contains ''Tournament'' line then
        (case re_match tournament_header_re line of
           None \<Rightarrow> Inl AttributeError
         | Some m \<Rightarrow>
             ebind (Fraction (group m ''buyin'')) (\<lambda>b.
             ebind (Fraction (group m ''rake'')) (\<lambda>r.
             ebind (Game_of (group m ''game'')) (\<lambda>g.
             ebind (Limit_of (group m ''limit'')) (\<lambda>l.
               Inr (Some m,
                    \<lparr>t_buyin = Some b, t_ident = group m ''tournament_ident'',
                     t_level = group m ''tournament_level'', t_rake = Some r,
                     t_game = Some g, t_limit = Some l\<rparr>))))))
      else Inr (re_match cash_header_re line, no_tournament_keys))"

definition parse_table :: "caps \<Rightarrow> tournament_keys \<Rightarrow> rat \<Rightarrow> rat \<Rightarrow> Currency \<Rightarrow> parser
    \<Rightarrow> error + (properties \<times> parser)" where
  "parse_table m t s b cur p =
     (case re_match table_re (curline p) of
        None \<Rightarrow> Inl (ParseException (curline p))
      | Some m2 \<Rightarrow>
          ebind (int_group (group m2 ''seats'')) (\<lambda>mp.
          ebind (int_group (group m2 ''button'')) (\<lambda>bt.
            Inr (\<lparr>buyin = t_buyin t, tournament_ident = t_ident t,
                  tournament_level = t_level t, rake = t_rake t, game = t_game t,
                  limit = t_limit t, game_type = group m ''game_type'', sb = s, bb = b,
                  ident = group m ''ident'', currency = cur,
                  table_name = group m2 ''name'', max_players = mp, button = bt\<rparr>,
                 readline p))))"

definition parse_header :: "parser \<Rightarrow> error + (properties \<times> parser)" where
  "parse_header p =
     ebind (header_match (curline p)) (\<lambda>(mo, t).
       (case mo of
          None \<Rightarrow> Inl (ParseException (curline p))
        | Some m \<Rightarrow>
            ebind (Fraction (group m ''sb'')) (\<lambda>s.
            ebind (Fraction (group m ''bb'')) (\<lambda>b.
            ebind (Currency_of (group m ''currency'')) (\<lambda>cur.
              parse_table m t s b cur (readline p))))))"

lemma seat_re_empty: "re_match seat_re [] = None"
  by (simp add: re_defs)

lemma blind_re_empty: "re_match blind_re [] = None"
  by (simp add: re_defs)

lemma action_re_empty: "re_match action_re [] = None"
  by (simp add: re_defs)

lemma showdown_re_empty: "re_match showdown_re [] = None"
  by (simp add: re_defs)

lemma seat_re_less:
  "re_match seat_re (curline (readline p)) = Some m \<Longrightarrow>
   length (stream (readline p)) < length (stream p)"
  using readline_stream_less [of p] seat_re_empty by (cases "curline (readline p) = []") auto

lemma blind_re_less:
  "re_match blind_re (curline (readline p)) = Some m \<Longrightarrow>
   length (stream (readline p)) < length (stream p)"
  using readline_stream_less [of p] blind_re_empty by (cases "curline (readline p) = []") auto

lemma action_re_less:
  "re_match action_re (curline (readline p)) = Some m \<Longrightarrow>
   length (stream (readline p)) < length (stream p)"
  using readline_stream_less [of p] action_re_empty by (cases "curline (readline p) = []") auto

lemma showdown_re_less:
  "re_match showdown_re (curline (readline p)) = Some m \<Longrightarrow>
   length (stream (readline p)) < length (stream p)"
  using readline_stream_less [of p] showdown_re_empty by (cases "curline (readline p) = []") auto

lemma contains_empty: "sub \<noteq> [] \<Longrightarrow> \<not> contains sub []"
  by simp

text \<open>
  \<open>_parse_players\<close>: the first line must be a seat line; each seat line fills the slot
  \<open>hh.seats[seat - 1]\<close>; then the notices \<open>will be allowed to play\<close> are skipped.
\<close>

definition seat_line :: "HandHistory \<Rightarrow> caps \<Rightarrow> error + HandHistory" where
  "seat_line hh m =
     (case int_group (group m ''seat'') of
        Inl e \<Rightarrow> Inl e
      | Inr n \<Rightarrow>
     (case Fraction (group m ''stack'') of
        Inl e \<Rightarrow> Inl e
      | Inr st \<Rightarrow>
     (case list_slot (seats hh) (n - 1) of
        Inl e \<Rightarrow> Inl e
      | Inr i \<Rightarrow>
          Inr (hh\<lparr>seats := (seats hh)[i := (seats hh ! i)\<lparr>name := group m ''name'',
                                                          stack := Some st\<rparr>]\<rparr>))))"

function players_loop :: "HandHistory \<Rightarrow> caps \<Rightarrow> parser \<Rightarrow> error + (HandHistory \<times> parser)" where
  "players_loop hh m p =
     (case seat_line hh m of
        Inl e \<Rightarrow> Inl e
      | Inr hh' \<Rightarrow>
     (case re_match seat_re (curline (readline p)) of
        None \<Rightarrow> Inr (hh', readline p)
      | Some m' \<Rightarrow> players_loop hh' m' (readline p)))"
  by pat_completeness auto
termination
  by (relation "measure (\<lambda>(hh, m, p). length (stream p))") (auto intro: seat_re_less)

function allowed_loop :: "parser \<Rightarrow> parser" where
  "allowed_loop p =
     (if contains ''will be allowed to play'' (curline p) then allowed_loop (readline p) else p)"
  by pat_completeness auto
termination
  by (relation "measure cursor_size") (auto intro!: readline_cursor_less)

definition parse_players :: "HandHistory \<Rightarrow> parser \<Rightarrow> error + (HandHistory \<times> parser)" where
  "parse_players hh p =
     (case re_match seat_re (curline p) of
        None \<Rightarrow> Inl (ParseException (curline p))
      | Some m \<Rightarrow>
          (case players_loop hh m p of
             Inl e \<Rightarrow> Inl e
           | Inr (hh', p') \<Rightarrow> Inr (hh', allowed_loop p')))"

text \<open>
  \<open>_parse_blinds\<close>: the first line must match the blind pattern; each matching line
  appends a \<open>BLIND\<close> action with its amount; then the notices \<open>sits out\<close> are skipped.
  The pattern \<open>_ante_re\<close> of the class is used nowhere.
\<close>

definition blind_line :: "HandHistory \<Rightarrow> caps \<Rightarrow> error + HandHistory" where
  "blind_line hh m =
     (case Fraction (group m ''3'') of
        Inl e \<Rightarrow> Inl e
      | Inr v \<Rightarrow>
     (case seat hh (group m ''1'') of
        Inl e \<Rightarrow> Inl e
      | Inr (i, s) \<Rightarrow>
          Inr (hh\<lparr>blinds := blinds hh @ [\<lparr>seat_index = i, action_kind = BLIND,
                                           amount = Some v\<rparr>]\<rparr>)))"

function blinds_loop :: "HandHistory \<Rightarrow> caps \<Rightarrow> parser \<Rightarrow> error + (HandHistory \<times> parser)" where
  "blinds_loop hh m p =
     (case blind_line hh m of
        Inl e \<Rightarrow> Inl e
      | Inr hh' \<Rightarrow>
     (case re_match blind_re (curline (readline p)) of
        None \<Rightarrow> Inr (hh', readline p)
      | Some m' \<Rightarrow> blinds_loop hh' m' (readline p)))"
  by pat_completeness auto
termination
  by (relation "measure (\<lambda>(hh, m, p). length (stream p))") (auto intro: blind_re_less)

function sitout_loop :: "parser \<Rightarrow> parser" where
  "sitout_loop p = (if contains ''sits out'' (curline p) then sitout_loop (readline p) else p)"
  by pat_completeness auto
termination
  by (relation "measure cursor_size") (auto intro!: readline_cursor_less)

definition parse_blinds :: "HandHistory \<Rightarrow> parser \<Rightarrow> error + (HandHistory \<times> parser)" where
  "parse_blinds hh p =
     (case re_match blind_re (curline p) of
        None \<Rightarrow> Inl (ParseException (curline p))
      | Some m \<Rightarrow>
          (case blinds_loop (hh\<lparr>blinds := []\<rparr>) m p of
             Inl e \<Rightarrow> Inl e
           | Inr (hh', p') \<Rightarrow> Inr (hh', sitout_loop p')))"

text \<open>
  \<open>_parse_hero\<close>. On a hero line the statement
  \<open>name = hh.seat(name).holecards = HoleCards(...)\<close> builds the hole cards, binds them to
  \<open>name\<close>, and then looks the seat up with these hole cards as the name: no seat has
  them as its name, and the pair the lookup returns has no attribute \<open>holecards\<close>, so the
  statement raises whenever the cards are built.
\<close>

definition parse_hero :: "HandHistory \<Rightarrow> parser \<Rightarrow> error + (HandHistory \<times> parser)" where
  "parse_hero hh p0 =
     (let p = (if contains ''*** HOLE CARDS ***'' (curline p0) then readline p0 else p0)
      in (case re_match hero_re (curline p) of
            None \<Rightarrow> Inr (hh, p)
          | Some m \<Rightarrow>
              ebind (Card_of (group m ''card1'')) (\<lambda>c1.
              ebind (Card_of (group m ''card2'')) (\<lambda>c2.
                Inl NameResolutionFailure))))"


text \<open>
  \<open>_parse_street\<close>, shared by the four streets: every action line gives a
  \<open>PlayerAction\<close>; a bet or a raise takes its amount from the group \<open>value\<close>, the other
  kinds take none.
\<close>

definition street_action :: "HandHistory \<Rightarrow> caps \<Rightarrow> error + PlayerAction" where
  "street_action hh m =
     (case seat hh (group m ''name'') of
        Inl e \<Rightarrow> Inl e
      | Inr (i, s) \<Rightarrow>
     (case Action_of (group m ''action'') of
        Inl e \<Rightarrow> Inl e
      | Inr a \<Rightarrow>
          (if a = RAISE \<or> a = BET then
             (case Fraction (group m ''value'') of
                Inl e \<Rightarrow> Inl e
              | Inr v \<Rightarrow> Inr \<lparr>seat_index = i, action_kind = a, amount = Some v\<rparr>)
           else Inr \<lparr>seat_index = i, action_kind = a, amount = None\<rparr>)))"

function street_loop :: "HandHistory \<Rightarrow> PlayerAction list \<Rightarrow> caps \<Rightarrow> parser
    \<Rightarrow> error + (PlayerAction list \<times> parser)" where
  "street_loop hh actions m p =
     (case street_action hh m of
        Inl e \<Rightarrow> Inl e
      | Inr pa \<Rightarrow>
     (case re_match action_re (curline (readline p)) of
        None \<Rightarrow> Inr (actions @ [pa], readline p)
      | Some m' \<Rightarrow> street_loop hh (actions @ [pa]) m' (readline p)))"
  by pat_completeness auto
termination
  by (relation "measure (\<lambda>(hh, actions, m, p). length (stream p))") (auto intro: action_re_less)

definition parse_street :: "HandHistory \<Rightarrow> parser \<Rightarrow> error + (PlayerAction list \<times> parser)" where
  "parse_street hh p =
     (case re_match action_re (curline p) of
        None \<Rightarrow> Inr ([], p)
      | Some m \<Rightarrow> street_loop hh [] m p)"

definition parse_preflop :: "HandHistory \<Rightarrow> parser \<Rightarrow> error + (HandHistory \<times> parser)" where
  "parse_preflop hh p =
     (case parse_street hh p of
        Inl e \<Rightarrow> Inl e
      | Inr (acts, p') \<Rightarrow> Inr (hh\<lparr>preflopactions := Some acts\<rparr>, p'))"

text \<open>
  \<open>_parse_flop\<close>, \<open>_parse_turn\<close>, \<open>_parse_river\<close>: a matching marker line sets the board
  to the three flop cards, or appends one card to the board as it stands (with the
  board's own \<open>append\<close>), and the street's actions follow; a line that does not match
  leaves the record as it is.
\<close>

definition parse_flop :: "HandHistory \<Rightarrow> parser \<Rightarrow> error + (HandHistory \<times> parser)" where
  "parse_flop hh p =
     (case re_match flop_re (curline p) of
        None \<Rightarrow> Inr (hh, p)
      | Some m \<Rightarrow>
          ebind (Card_of (group m ''1'')) (\<lambda>c1.
          ebind (Card_of (group m ''2'')) (\<lambda>c2.
          ebind (Card_of (group m ''3'')) (\<lambda>c3.
          ebind (parse_street (hh\<lparr>board := [c1, c2, c3]\<rparr>) (readline p)) (\<lambda>(acts, p').
            Inr (hh\<lparr>board := [c1, c2, c3], flopactions := Some acts\<rparr>, p'))))))"

definition parse_turn :: "HandHistory \<Rightarrow> parser \<Rightarrow> error + (HandHistory \<times> parser)" where
  "parse_turn hh p =
     (case re_match turn_re (curline p) of
        None \<Rightarrow> Inr (hh, p)
      | Some m \<Rightarrow>
          ebind (Card_of (group m ''1'')) (\<lambda>c.
          ebind (Board_append (board hh) c) (\<lambda>b.
          ebind (parse_street (hh\<lparr>board := b\<rparr>) (readline p)) (\<lambda>(acts, p').
            Inr (hh\<lparr>board := b, turnactions := Some acts\<rparr>, p')))))"

definition parse_river :: "HandHistory \<Rightarrow> parser \<Rightarrow> error + (HandHistory \<times> parser)" where
  "parse_river hh p =
     (case re_match river_re (curline p) of
        None \<Rightarrow> Inr (hh, p)
      | Some m \<Rightarrow>
          ebind (Card_of (group m ''1'')) (\<lambda>c.
          ebind (Board_append (board hh) c) (\<lambda>b.
          ebind (parse_street (hh\<lparr>board := b\<rparr>) (readline p)) (\<lambda>(acts, p').
            Inr (hh\<lparr>board := b, riveractions := Some acts\<rparr>, p')))))"

text \<open>
  \<open>_parse_showdown\<close>: after the marker, every \<open>shows\<close> line stores the hole cards of the
  named seat; then the lines about collected pots, mucked and hidden hands are skipped.
\<close>

definition shows_line :: "HandHistory \<Rightarrow> caps \<Rightarrow> error + HandHistory" where
  "shows_line hh m =
     (case seat hh (group m ''1'') of
        Inl e \<Rightarrow> Inl e
      | Inr (i, s) \<Rightarrow>
     (case Card_of (group m ''2'') of
        Inl e \<Rightarrow> Inl e
      | Inr c1 \<Rightarrow>
     (case Card_of (group m ''3'') of
        Inl e \<Rightarrow> Inl e
      | Inr c2 \<Rightarrow>
          Inr (hh\<lparr>seats := (seats hh)[i := s\<lparr>holecards := Some (c1, c2)\<rparr>]\<rparr>))))"

function shows_loop :: "HandHistory \<Rightarrow> caps \<Rightarrow> parser \<Rightarrow> error + (HandHistory \<times> parser)" where
  "shows_loop hh m p =
     (case shows_line hh m of
        Inl e \<Rightarrow> Inl e
      | Inr hh' \<Rightarrow>
     (case re_match showdown_re (curline (readline p)) of
        None \<Rightarrow> Inr (hh', readline p)
      | Some m' \<Rightarrow> shows_loop hh' m' (readline p)))"
  by pat_completeness auto
termination
  by (relation "measure (\<lambda>(hh, m, p). length (stream p))") (auto intro: showdown_re_less)

function collected_loop :: "parser \<Rightarrow> parser" where
  "collected_loop p =
     (if contains ''collected'' (curline p) \<or> contains ''mucks'' (curline p)
         \<or> contains (''doesn'' @ [CHR 0x27] @ ''t show'') (curline p)
         \<or> contains '': shows'' (curline p)
      then collected_loop (readline p) else p)"
  by pat_completeness auto
termination
  by (relation "measure cursor_size") (auto intro!: readline_cursor_less)

definition parse_showdown :: "HandHistory \<Rightarrow> parser \<Rightarrow> error + (HandHistory \<times> parser)" where
  "parse_showdown hh p =
     (if contains ''*** SHOW DOWN ***'' (curline p) then
        (case re_match showdown_re (curline (readline p)) of
           None \<Rightarrow> Inr (hh\<lparr>showdown := True\<rparr>, collected_loop (readline p))
         | Some m \<Rightarrow>
             (case shows_loop (hh\<lparr>showdown := True\<rparr>) m (readline p) of
                Inl e \<Rightarrow> Inl e
              | Inr (hh', p') \<Rightarrow> Inr (hh', collected_loop p')))
      else Inr (hh, p))"

section \<open>The hand assembler\<close>

text \<open>
  \<open>parse\<close> seeks the next header and runs the section parsers in their fixed order.
  \<open>histories\<close> is the generator: it rewinds the stream, and yields one record for each
  header it finds. Its value is the list of the records yielded, and then either the
  exception that ended the iteration or the parser as the exhausted generator leaves it.
\<close>

definition parse :: "parser \<Rightarrow> error + (HandHistory \<times> parser)" where
  "parse p =
     ebind (parse_header (seek_next_header p)) (\<lambda>(pr, p1).
     ebind (parse_players (HandHistory_init pr) p1) (\<lambda>(hh2, p2).
     ebind (parse_blinds hh2 p2) (\<lambda>(hh3, p3).
     ebind (parse_hero hh3 p3) (\<lambda>(hh4, p4).
     ebind (parse_preflop hh4 p4) (\<lambda>(hh5, p5).
     ebind (parse_flop hh5 p5) (\<lambda>(hh6, p6).
     ebind (parse_turn hh6 p6) (\<lambda>(hh7, p7).
     ebind (parse_river hh7 p7) (\<lambda>(hh8, p8).
       parse_showdown hh8 p8))))))))"

function histories_loop :: "parser \<Rightarrow> HandHistory list \<times> (error + parser)" where
  "histories_loop p =
     (if curline p = [] then ([], Inr p)
      else (case parse p of
              Inl e \<Rightarrow> ([], Inl e)
            | Inr (hh, p') \<Rightarrow>
                (case histories_loop (seek_next_header p') of
                   (hs, r) \<Rightarrow> (hh # hs, r))))"
  by pat_completeness auto

definition histories :: "parser \<Rightarrow> HandHistory list \<times> (error + parser)" where
  "histories p = histories_loop (seek_next_header (p\<lparr>stream := content p\<rparr>))"


declare seek_next_header.simps [simp del]
declare players_loop.simps [simp del]
declare allowed_loop.simps [simp del]
declare blinds_loop.simps [simp del]
declare sitout_loop.simps [simp del]
declare street_loop.simps [simp del]
declare shows_loop.simps [simp del]
declare collected_loop.simps [simp del]

section \<open>The cursor only moves forward\<close>

definition advances :: "parser \<Rightarrow> parser \<Rightarrow> bool" where
  "advances p p' \<longleftrightarrow> content p' = content p \<and> length (stream p') \<le> length (stream p)"

lemma advances_refl [simp]: "advances p p"
  by (simp add: advances_def)

lemma advances_trans: "advances p q \<Longrightarrow> advances q r \<Longrightarrow> advances p r"
  by (auto simp: advances_def)

lemma advances_readline [simp]: "advances p (readline p)"
  by (simp add: advances_def readline_stream_le)

lemma advances_readline_trans: "advances (readline p) q \<Longrightarrow> advances p q"
  using advances_trans advances_readline by blast

lemma seek_next_header_adv: "advances p (seek_next_header p)"
proof (induction p rule: seek_next_header.induct)
  case (1 p)
  show ?case
    using 1 by (subst seek_next_header.simps) (auto intro: advances_readline_trans)
qed

lemma allowed_loop_adv: "advances p (allowed_loop p)"
proof (induction p rule: allowed_loop.induct)
  case (1 p)
  show ?case
    using 1 by (subst allowed_loop.simps) (auto intro: advances_readline_trans)
qed

lemma sitout_loop_adv: "advances p (sitout_loop p)"
proof (induction p rule: sitout_loop.induct)
  case (1 p)
  show ?case
    using 1 by (subst sitout_loop.simps) (auto intro: advances_readline_trans)
qed

lemma collected_loop_adv: "advances p (collected_loop p)"
proof (induction p rule: collected_loop.induct)
  case (1 p)
  show ?case
    using 1 by (subst collected_loop.simps) (auto intro: advances_readline_trans)
qed

lemma players_loop_adv: "players_loop hh m p = Inr (hh', p') \<Longrightarrow> advances p p'"
proof (induction hh m p rule: players_loop.induct)
  case (1 hh m p)
  from "1.prems" show ?case
    by (subst (asm) players_loop.simps)
       (auto split: sum.splits option.splits intro: advances_readline_trans dest: "1.IH")
qed

lemma blinds_loop_adv: "blinds_loop hh m p = Inr (hh', p') \<Longrightarrow> advances p p'"
proof (induction hh m p rule: blinds_loop.induct)
  case (1 hh m p)
  from "1.prems" show ?case
    by (subst (asm) blinds_loop.simps)
       (auto split: sum.splits option.splits intro: advances_readline_trans dest: "1.IH")
qed

lemma street_loop_adv: "street_loop hh acts m p = Inr (acts', p') \<Longrightarrow> advances p p'"
proof (induction hh acts m p rule: street_loop.induct)
  case (1 hh acts m p)
  from "1.prems" show ?case
    by (subst (asm) street_loop.simps)
       (auto split: sum.splits option.splits intro: advances_readline_trans dest: "1.IH")
qed

lemma shows_loop_adv: "shows_loop hh m p = Inr (hh', p') \<Longrightarrow> advances p p'"
proof (induction hh m p rule: shows_loop.induct)
  case (1 hh m p)
  from "1.prems" show ?case
    by (subst (asm) shows_loop.simps)
       (auto split: sum.splits option.splits intro: advances_readline_trans dest: "1.IH")
qed

lemma table_re_empty: "re_match table_re [] = None"
  by (simp add: re_defs)

lemma ebind_Inr: "ebind x f = Inr y \<longleftrightarrow> (\<exists>v. x = Inr v \<and> f v = Inr y)"
  by (cases x) auto

lemma parse_header_adv:
  "parse_header p = Inr (pr, p') \<Longrightarrow>
   content p' = content p \<and> length (stream p') < length (stream p)"
  using readline_stream_less [of p] readline_stream_le [of "readline p"] table_re_empty
  by (cases "curline (readline p) = []")
     (auto simp: parse_header_def parse_table_def ebind_Inr split: option.splits)

lemma parse_players_adv: "parse_players hh p = Inr (hh', p') \<Longrightarrow> advances p p'"
  by (auto simp: parse_players_def split: option.splits sum.splits
      intro: advances_trans [OF players_loop_adv allowed_loop_adv])

lemma parse_blinds_adv: "parse_blinds hh p = Inr (hh', p') \<Longrightarrow> advances p p'"
  by (auto simp: parse_blinds_def split: option.splits sum.splits
      intro: advances_trans [OF blinds_loop_adv sitout_loop_adv])

lemma parse_hero_adv: "parse_hero hh p = Inr (hh', p') \<Longrightarrow> advances p p'"
  by (auto simp: parse_hero_def Let_def ebind_Inr split: option.splits if_splits)

lemma parse_street_adv: "parse_street hh p = Inr (acts, p') \<Longrightarrow> advances p p'"
  by (auto simp: parse_street_def split: option.splits dest: street_loop_adv)

lemma parse_preflop_adv: "parse_preflop hh p = Inr (hh', p') \<Longrightarrow> advances p p'"
  by (auto simp: parse_preflop_def split: sum.splits dest: parse_street_adv)

lemma parse_flop_adv: "parse_flop hh p = Inr (hh', p') \<Longrightarrow> advances p p'"
  by (auto simp: parse_flop_def ebind_Inr split: option.splits
      dest!: parse_street_adv intro: advances_readline_trans)

lemma parse_turn_adv: "parse_turn hh p = Inr (hh', p') \<Longrightarrow> advances p p'"
  by (auto simp: parse_turn_def ebind_Inr split: option.splits
      dest!: parse_street_adv intro: advances_readline_trans)

lemma parse_river_adv: "parse_river hh p = Inr (hh', p') \<Longrightarrow> advances p p'"
  by (auto simp: parse_river_def ebind_Inr split: option.splits
      dest!: parse_street_adv intro: advances_readline_trans)

lemma parse_showdown_adv: "parse_showdown hh p = Inr (hh', p') \<Longrightarrow> advances p p'"
  by (auto simp: parse_showdown_def split: option.splits sum.splits if_splits
      dest!: shows_loop_adv
      intro: advances_readline_trans advances_trans [OF _ collected_loop_adv] collected_loop_adv)


lemma parse_stages:
  assumes "parse p = Inr (hh, p')"
  obtains pr p1 hh2 p2 hh3 p3 hh4 p4 hh5 p5 hh6 p6 hh7 p7 hh8 p8 where
    "parse_header (seek_next_header p) = Inr (pr, p1)"
    "parse_players (HandHistory_init pr) p1 = Inr (hh2, p2)"
    "parse_blinds hh2 p2 = Inr (hh3, p3)"
    "parse_hero hh3 p3 = Inr (hh4, p4)"
    "parse_preflop hh4 p4 = Inr (hh5, p5)"
    "parse_flop hh5 p5 = Inr (hh6, p6)"
    "parse_turn hh6 p6 = Inr (hh7, p7)"
    "parse_river hh7 p7 = Inr (hh8, p8)"
    "parse_showdown hh8 p8 = Inr (hh, p')"
proof -
  from assms obtain pr p1 where h1: "parse_header (seek_next_header p) = Inr (pr, p1)"
    and r1: "ebind (parse_players (HandHistory_init pr) p1) (\<lambda>(hh2, p2).
     ebind (parse_blinds hh2 p2) (\<lambda>(hh3, p3).
     ebind (parse_hero hh3 p3) (\<lambda>(hh4, p4).
     ebind (parse_preflop hh4 p4) (\<lambda>(hh5, p5).
     ebind (parse_flop hh5 p5) (\<lambda>(hh6, p6).
     ebind (parse_turn hh6 p6) (\<lambda>(hh7, p7).
     ebind (parse_river hh7 p7) (\<lambda>(hh8, p8).
       parse_showdown hh8 p8))))))) = Inr (hh, p')"
    unfolding parse_def by (cases "parse_header (seek_next_header p)") auto
  from r1 obtain hh2 p2 where h2: "parse_players (HandHistory_init pr) p1 = Inr (hh2, p2)"
    and r2: "ebind (parse_blinds hh2 p2) (\<lambda>(hh3, p3).
     ebind (parse_hero hh3 p3) (\<lambda>(hh4, p4).
     ebind (parse_preflop hh4 p4) (\<lambda>(hh5, p5).
     ebind (parse_flop hh5 p5) (\<lambda>(hh6, p6).
     ebind (parse_turn hh6 p6) (\<lambda>(hh7, p7).
     ebind (parse_river hh7 p7) (\<lambda>(hh8, p8).
       parse_showdown hh8 p8)))))) = Inr (hh, p')"
    by (cases "parse_players (HandHistory_init pr) p1") auto
  from r2 obtain hh3 p3 where h3: "parse_blinds hh2 p2 = Inr (hh3, p3)"
    and r3: "ebind (parse_hero hh3 p3) (\<lambda>(hh4, p4).
     ebind (parse_preflop hh4 p4) (\<lambda>(hh5, p5).
     ebind (parse_flop hh5 p5) (\<lambda>(hh6, p6).
     ebind (parse_turn hh6 p6) (\<lambda>(hh7, p7).
     ebind (parse_river hh7 p7) (\<lambda>(hh8, p8).
       parse_showdown hh8 p8))))) = Inr (hh, p')"
    by (cases "parse_blinds hh2 p2") auto
  from r3 obtain hh4 p4 where h4: "parse_hero hh3 p3 = Inr (hh4, p4)"
    and r4: "ebind (parse_preflop hh4 p4) (\<lambda>(hh5, p5).
     ebind (parse_flop hh5 p5) (\<lambda>(hh6, p6).
     ebind (parse_turn hh6 p6) (\<lambda>(hh7, p7).
     ebind (parse_river hh7 p7) (\<lambda>(hh8, p8).
       parse_showdown hh8 p8)))) = Inr (hh, p')"
    by (cases "parse_hero hh3 p3") auto
  from r4 obtain hh5 p5 where h5: "parse_preflop hh4 p4 = Inr (hh5, p5)"
    and r5: "ebind (parse_flop hh5 p5) (\<lambda>(hh6, p6).
     ebind (parse_turn hh6 p6) (\<lambda>(hh7, p7).
     ebind (parse_river hh7 p7) (\<lambda>(hh8, p8).
       parse_showdown hh8 p8))) = Inr (hh, p')"
    by (cases "parse_preflop hh4 p4") auto
  from r5 obtain hh6 p6 where h6: "parse_flop hh5 p5 = Inr (hh6, p6)"
    and r6: "ebind (parse_turn hh6 p6) (\<lambda>(hh7, p7).
     ebind (parse_river hh7 p7) (\<lambda>(hh8, p8).
       parse_showdown hh8 p8)) = Inr (hh, p')"
    by (cases "parse_flop hh5 p5") auto
  from r6 obtain hh7 p7 where h7: "parse_turn hh6 p6 = Inr (hh7, p7)"
    and r7: "ebind (parse_river hh7 p7) (\<lambda>(hh8, p8). parse_showdown hh8 p8) = Inr (hh, p')"
    by (cases "parse_turn hh6 p6") auto
  from r7 obtain hh8 p8 where h8: "parse_river hh7 p7 = Inr (hh8, p8)"
    and r8: "parse_showdown hh8 p8 = Inr (hh, p')"
    by (cases "parse_river hh7 p7") auto
  from h1 h2 h3 h4 h5 h6 h7 h8 r8 show thesis
    by (rule that)
qed

lemma parse_adv:
  assumes "parse p = Inr (hh, p')"
  shows "content p' = content p \<and> length (stream p') < length (stream p)"
proof -
  from assms obtain pr p1 hh2 p2 hh3 p3 hh4 p4 hh5 p5 hh6 p6 hh7 p7 hh8 p8 where
    h: "parse_header (seek_next_header p) = Inr (pr, p1)"
      "parse_players (HandHistory_init pr) p1 = Inr (hh2, p2)"
      "parse_blinds hh2 p2 = Inr (hh3, p3)"
      "parse_hero hh3 p3 = Inr (hh4, p4)"
      "parse_preflop hh4 p4 = Inr (hh5, p5)"
      "parse_flop hh5 p5 = Inr (hh6, p6)"
      "parse_turn hh6 p6 = Inr (hh7, p7)"
      "parse_river hh7 p7 = Inr (hh8, p8)"
      "parse_showdown hh8 p8 = Inr (hh, p')"
    by (rule parse_stages)
  have a0: "advances p (seek_next_header p)"
    by (rule seek_next_header_adv)
  have a1: "content p1 = content (seek_next_header p)
      \<and> length (stream p1) < length (stream (seek_next_header p))"
    using h(1) by (rule parse_header_adv)
  have a2: "advances p1 p2" using h(2) by (rule parse_players_adv)
  have a3: "advances p2 p3" using h(3) by (rule parse_blinds_adv)
  have a4: "advances p3 p4" using h(4) by (rule parse_hero_adv)
  have a5: "advances p4 p5" using h(5) by (rule parse_preflop_adv)
  have a6: "advances p5 p6" using h(6) by (rule parse_flop_adv)
  have a7: "advances p6 p7" using h(7) by (rule parse_turn_adv)
  have a8: "advances p7 p8" using h(8) by (rule parse_river_adv)
  have a9: "advances p8 p'" using h(9) by (rule parse_showdown_adv)
  from a0 a1 a2 a3 a4 a5 a6 a7 a8 a9 show ?thesis
    by (simp add: advances_def)
qed

termination histories_loop
proof (relation "measure (\<lambda>p. length (stream p))")
  show "wf (measure (\<lambda>p. length (stream p)))"
    by simp
next
  fix p :: parser and x2 :: "HandHistory \<times> parser" and hh p'
  assume "parse p = Inr x2" and "(hh, p') = x2"
  then have "length (stream p') < length (stream p)"
    using parse_adv [of p hh p'] by simp
  moreover have "length (stream (seek_next_header p')) \<le> length (stream p')"
    using seek_next_header_adv [of p'] by (simp add: advances_def)
  ultimately show "(seek_next_header p', p) \<in> measure (\<lambda>p. length (stream p))"
    by simp
qed

declare histories_loop.simps [simp del]



section \<open>Running the parser on a given text\<close>

text \<open>
  The equations that evaluate the parser on a concrete stream, and the lines of a small
  cash-game hand used by the examples below. \<open>fresh t\<close> is the parser the constructor
  returns for a stream holding the text \<open>t\<close>.
\<close>

lemmas frac_defs =
  Fraction_def Fraction_str_def is_space_def is_digit_def int_of_digits_def digit_val_def
  fraction_lookahead_def fraction_exponent_def int_group_def

lemmas model_defs =
  Card_of_def Action_of_def Currency_of_def Game_of_def Limit_of_def empty_seat_def
  HandHistory_init_def seat_def list_slot_def Board_append_def group_def
  properties.extend_def HandHistory.fields_def

lemmas parser_defs =
  readline_def header_match_def no_tournament_keys_def parse_table_def parse_header_def
  seat_line_def parse_players_def blind_line_def parse_blinds_def parse_hero_def
  street_action_def parse_street_def parse_preflop_def parse_flop_def parse_turn_def
  parse_river_def shows_line_def parse_showdown_def parse_def
  seek_next_header.simps players_loop.simps allowed_loop.simps blinds_loop.simps
  sitout_loop.simps street_loop.simps shows_loop.simps collected_loop.simps

lemmas run_defs = parser_defs model_defs frac_defs re_defs eval_nat_numeral

definition fresh :: "string \<Rightarrow> parser" where
  "fresh t = \<lparr>content = t, stream = t, curline = []\<rparr>"

abbreviation ex_header :: string where
  "ex_header \<equiv> ''PokerStars Hand #1:  Hold'' @ [CHR 0x27] @ ''em No Limit ($1/$2 USD) - d'' @ nl"

abbreviation ex_table :: string where
  "ex_table \<equiv> ''Table '' @ [CHR 0x27] @ ''T'' @ [CHR 0x27] @ '' 2-max Seat #1 is the button'' @ nl"

abbreviation ex_seat :: string where
  "ex_seat \<equiv> ''Seat 1: Alice ($100 in chips)'' @ nl"

abbreviation ex_blind :: string where
  "ex_blind \<equiv> ''Alice: posts small blind $1'' @ nl"


lemma case_sum_prodE:
  "(case x of Inl e \<Rightarrow> False | Inr (a, b) \<Rightarrow> P a b) \<Longrightarrow> \<exists>a b. x = Inr (a, b) \<and> P a b"
  by (auto split: sum.splits prod.splits)

section \<open>The constructor\<close>

text \<open>
  C10. Constructing the parser with a mode other than \<open>full\<close> (the documented modes
  \<open>header\<close> and \<open>text\<close> included) raises the exception \<open>Not implemented.\<close>
  before a stream is assigned and before a file is opened: no parser object results and
  the list of opened files is empty, whatever the stream and the file name are.
\<close>

theorem init_mode_not_full:
  "mode \<noteq> ''full'' \<Longrightarrow>
   init files strm filename mode = (Inl (PlainException ''Not implemented.''), [])"
  by (simp add: init_def)

theorem init_mode_not_full_witness:
  "init (Map.empty(''log.txt'' \<mapsto> ex_header)) None (Some ''log.txt'') ''header''
     = (Inl (PlainException ''Not implemented.''), [])
   \<and> init Map.empty (Some ex_header) None ''text''
     = (Inl (PlainException ''Not implemented.''), [])"
  using init_mode_not_full [of "''header''" "Map.empty(''log.txt'' \<mapsto> ex_header)" None
      "Some ''log.txt''"]
    init_mode_not_full [of "''text''" Map.empty "Some ex_header" None]
  by simp

section \<open>The hero line\<close>

text \<open>
  C4. The specification: a line \<open>Dealt to name [c1 c2]\<close> after the blinds is consumed and sets
  the hole cards of the named seat. On the code, a hand with such a line does not parse:
  the assignment in \<open>_parse_hero\<close> looks the seat up with the hole cards in the place of
  the name, and \<open>parse\<close> ends with that failure instead of a record.
\<close>

theorem hero_line_raises:
  "parse (fresh (ex_header @ ex_table @ ex_seat @ ex_blind @ ''*** HOLE CARDS ***'' @ nl
                 @ ''Dealt to Alice [Ah Kd]'' @ nl @ ''Alice: folds '' @ nl))
   = Inl NameResolutionFailure"
  by (simp add: fresh_def run_defs)

section \<open>Amounts of street actions\<close>

text \<open>
  C5. The specification: the line \<open>Alice: raises $20 to $30\<close> gives a RAISE action of Alice
  with the exact amount 20. On the code, the group \<open>value\<close> of the action pattern needs
  a decimal point after the digits, so it does not take part in the match of this line,
  and \<open>Fraction(None)\<close> raises \<open>TypeError\<close>: the hand does not parse.
\<close>

theorem raise_line_raises:
  "parse (fresh (ex_header @ ex_table @ ex_seat @ ex_blind @ ''Alice: raises $20 to $30'' @ nl))
   = Inl TypeError"
  by (simp add: fresh_def run_defs)

section \<open>Ante lines\<close>

text \<open>
  C6. The specification: every line \<open>name: posts ... blind(s)/ante\<close> of the blinds section is
  consumed and appended to \<open>blinds\<close>. On the code, an ante line matches no pattern the
  blinds parser uses: where the section starts with one, as the room writes it,
  \<open>parse\<close> raises \<open>ParseException\<close> with that line.
\<close>

theorem ante_line_raises:
  "parse (fresh (ex_header @ ex_table @ ex_seat @ ''Alice: posts the ante 5'' @ nl @ ex_blind))
   = Inl (ParseException (''Alice: posts the ante 5'' @ nl))"
  by (simp add: fresh_def run_defs)


section \<open>The header shapes\<close>

abbreviation ex_tournament :: string where
  "ex_tournament \<equiv> ''PokerStars Hand #9: Tournament #7, $1.00+$0.10 USD Hold'' @ [CHR 0x27]
     @ ''em No Limit - Level I (10/20) - x [d]'' @ nl"

lemma header_match_tournament:
  "contains ''Tournament'' line \<Longrightarrow> header_match line = Inr (mo, t) \<Longrightarrow>
   mo = re_match tournament_header_re line \<and> mo \<noteq> None"
  by (auto simp: header_match_def ebind_Inr split: option.splits)

lemma parse_table_accepts:
  "re_match table_re (curline q) = Some m2 \<Longrightarrow> int_group (group m2 ''seats'') = Inr mp \<Longrightarrow>
   int_group (group m2 ''button'') = Inr bt \<Longrightarrow>
   parse_table m t s b cur q =
     Inr (\<lparr>buyin = t_buyin t, tournament_ident = t_ident t, tournament_level = t_level t,
           rake = t_rake t, game = t_game t, limit = t_limit t,
           game_type = group m ''game_type'', sb = s, bb = b, ident = group m ''ident'',
           currency = cur, table_name = group m2 ''name'', max_players = mp, button = bt\<rparr>,
          readline q)"
  by (simp add: parse_table_def)

text \<open>
  C2, as amended. Header parsing tries one header shape only, chosen by whether the
  current line contains \<open>Tournament\<close>: the tournament shape if it does, the cash-game
  shape otherwise. A line without \<open>Tournament\<close> that does not match the cash-game shape
  raises \<open>ParseException\<close> with the raw line. When the chosen shape matches, header
  parsing goes on: the captured fields are converted and the next line is matched against
  the table line; when the conversions succeed and the table line matches, it returns the
  properties captured from the two lines and moves the cursor past them. A line with
  \<open>Tournament\<close> that does not match the tournament shape is never accepted, whether or
  not it matches the cash-game shape.
\<close>

theorem header_shape_selected:
  "(\<not> contains ''Tournament'' (curline p) \<and> re_match cash_header_re (curline p) = None
      \<longrightarrow> parse_header p = Inl (ParseException (curline p)))
   \<and> (\<not> contains ''Tournament'' (curline p) \<and> re_match cash_header_re (curline p) = Some m
       \<and> Fraction (group m ''sb'') = Inr s \<and> Fraction (group m ''bb'') = Inr b
       \<and> Currency_of (group m ''currency'') = Inr cur
       \<and> re_match table_re (curline (readline p)) = Some m2
       \<and> int_group (group m2 ''seats'') = Inr mp \<and> int_group (group m2 ''button'') = Inr bt
      \<longrightarrow> parse_header p =
            Inr (\<lparr>buyin = None, tournament_ident = None, tournament_level = None, rake = None,
                  game = None, limit = None, game_type = group m ''game_type'', sb = s, bb = b,
                  ident = group m ''ident'', currency = cur, table_name = group m2 ''name'',
                  max_players = mp, button = bt\<rparr>,
                 readline (readline p)))
   \<and> (contains ''Tournament'' (curline p)
       \<and> re_match tournament_header_re (curline p) = Some m
       \<and> Fraction (group m ''buyin'') = Inr bi \<and> Fraction (group m ''rake'') = Inr rk
       \<and> Game_of (group m ''game'') = Inr g \<and> Limit_of (group m ''limit'') = Inr l
       \<and> Fraction (group m ''sb'') = Inr s \<and> Fraction (group m ''bb'') = Inr b
       \<and> Currency_of (group m ''currency'') = Inr cur
       \<and> re_match table_re (curline (readline p)) = Some m2
       \<and> int_group (group m2 ''seats'') = Inr mp \<and> int_group (group m2 ''button'') = Inr bt
      \<longrightarrow> parse_header p =
            Inr (\<lparr>buyin = Some bi, tournament_ident = group m ''tournament_ident'',
                  tournament_level = group m ''tournament_level'', rake = Some rk,
                  game = Some g, limit = Some l, game_type = group m ''game_type'', sb = s,
                  bb = b, ident = group m ''ident'', currency = cur,
                  table_name = group m2 ''name'', max_players = mp, button = bt\<rparr>,
                 readline (readline p)))
   \<and> (contains ''Tournament'' (curline p) \<and> re_match tournament_header_re (curline p) = None
      \<longrightarrow> isl (parse_header p))"
proof (intro conjI impI)
  assume "\<not> contains ''Tournament'' (curline p) \<and> re_match cash_header_re (curline p) = None"
  then show "parse_header p = Inl (ParseException (curline p))"
    by (simp add: parse_header_def header_match_def)
next
  assume "\<not> contains ''Tournament'' (curline p) \<and> re_match cash_header_re (curline p) = Some m
       \<and> Fraction (group m ''sb'') = Inr s \<and> Fraction (group m ''bb'') = Inr b
       \<and> Currency_of (group m ''currency'') = Inr cur
       \<and> re_match table_re (curline (readline p)) = Some m2
       \<and> int_group (group m2 ''seats'') = Inr mp \<and> int_group (group m2 ''button'') = Inr bt"
  then show "parse_header p =
            Inr (\<lparr>buyin = None, tournament_ident = None, tournament_level = None, rake = None,
                  game = None, limit = None, game_type = group m ''game_type'', sb = s, bb = b,
                  ident = group m ''ident'', currency = cur, table_name = group m2 ''name'',
                  max_players = mp, button = bt\<rparr>,
                 readline (readline p))"
    by (simp add: parse_header_def header_match_def parse_table_accepts no_tournament_keys_def)
next
  assume "contains ''Tournament'' (curline p)
       \<and> re_match tournament_header_re (curline p) = Some m
       \<and> Fraction (group m ''buyin'') = Inr bi \<and> Fraction (group m ''rake'') = Inr rk
       \<and> Game_of (group m ''game'') = Inr g \<and> Limit_of (group m ''limit'') = Inr l
       \<and> Fraction (group m ''sb'') = Inr s \<and> Fraction (group m ''bb'') = Inr b
       \<and> Currency_of (group m ''currency'') = Inr cur
       \<and> re_match table_re (curline (readline p)) = Some m2
       \<and> int_group (group m2 ''seats'') = Inr mp \<and> int_group (group m2 ''button'') = Inr bt"
  then show "parse_header p =
            Inr (\<lparr>buyin = Some bi, tournament_ident = group m ''tournament_ident'',
                  tournament_level = group m ''tournament_level'', rake = Some rk,
                  game = Some g, limit = Some l, game_type = group m ''game_type'', sb = s,
                  bb = b, ident = group m ''ident'', currency = cur,
                  table_name = group m2 ''name'', max_players = mp, button = bt\<rparr>,
                 readline (readline p))"
    by (simp add: parse_header_def header_match_def parse_table_accepts)
next
  assume "contains ''Tournament'' (curline p) \<and> re_match tournament_header_re (curline p) = None"
  then show "isl (parse_header p)"
    by (simp add: parse_header_def header_match_def)
qed

theorem header_shape_selected_witness:
  "parse_header \<lparr>content = [], stream = [], curline = ''PokerStars junk'' @ nl\<rparr>
     = Inl (ParseException (''PokerStars junk'' @ nl))
   \<and> parse_header \<lparr>content = [], stream = ex_table, curline = ex_header\<rparr>
     = Inr (\<lparr>buyin = None, tournament_ident = None, tournament_level = None, rake = None,
             game = None, limit = None,
             game_type = Some (''Hold'' @ [CHR 0x27] @ ''em No Limit''), sb = 1, bb = 2,
             ident = Some ''1'', currency = USD, table_name = Some ''T'', max_players = 2,
             button = 1\<rparr>,
            \<lparr>content = [], stream = [], curline = []\<rparr>)
   \<and> parse_header \<lparr>content = [], stream = ex_table, curline = ex_tournament\<rparr>
     = Inr (\<lparr>buyin = Some 1, tournament_ident = Some ''7'', tournament_level = Some ''I'',
             rake = Some (1 / 10), game = Some HOLDEM, limit = Some NL,
             game_type = Some ''Tournament'', sb = 10, bb = 20, ident = Some ''9'',
             currency = USD, table_name = Some ''T'', max_players = 2, button = 1\<rparr>,
            \<lparr>content = [], stream = [], curline = []\<rparr>)
   \<and> isl (parse_header \<lparr>content = [], stream = ex_table,
        curline = ''PokerStars Hand #1:  Hold'' @ [CHR 0x27]
          @ ''em No Limit ($1/$2 USD) - Tournament'' @ nl\<rparr>)"
proof -
  let ?pj = "\<lparr>content = [], stream = [], curline = ''PokerStars junk'' @ nl\<rparr>"
  let ?pc = "\<lparr>content = [], stream = ex_table, curline = ex_header\<rparr>"
  let ?pt = "\<lparr>content = [], stream = ex_table, curline = ex_tournament\<rparr>"
  let ?px = "\<lparr>content = [], stream = ex_table,
        curline = ''PokerStars Hand #1:  Hold'' @ [CHR 0x27]
          @ ''em No Limit ($1/$2 USD) - Tournament'' @ nl\<rparr>"
  let ?mc = "the (re_match cash_header_re ex_header)"
  let ?mt = "the (re_match tournament_header_re ex_tournament)"
  let ?m2 = "the (re_match table_re ex_table)"
  have "\<not> contains ''Tournament'' (curline ?pj) \<and> re_match cash_header_re (curline ?pj) = None"
    by (simp add: re_defs)
  then have a: "parse_header ?pj = Inl (ParseException (''PokerStars junk'' @ nl))"
    using header_shape_selected [of ?pj, THEN conjunct1] by simp
  have "\<not> contains ''Tournament'' (curline ?pc) \<and> re_match cash_header_re (curline ?pc) = Some ?mc
       \<and> Fraction (group ?mc ''sb'') = Inr 1 \<and> Fraction (group ?mc ''bb'') = Inr 2
       \<and> Currency_of (group ?mc ''currency'') = Inr USD
       \<and> re_match table_re (curline (readline ?pc)) = Some ?m2
       \<and> int_group (group ?m2 ''seats'') = Inr 2 \<and> int_group (group ?m2 ''button'') = Inr 1"
    by (simp add: run_defs)
  from header_shape_selected [of ?pc ?mc 1 2 USD ?m2 2 1, THEN conjunct2, THEN conjunct1,
      rule_format, OF this]
  have b: "parse_header ?pc
     = Inr (\<lparr>buyin = None, tournament_ident = None, tournament_level = None, rake = None,
             game = None, limit = None,
             game_type = Some (''Hold'' @ [CHR 0x27] @ ''em No Limit''), sb = 1, bb = 2,
             ident = Some ''1'', currency = USD, table_name = Some ''T'', max_players = 2,
             button = 1\<rparr>,
            \<lparr>content = [], stream = [], curline = []\<rparr>)"
    by (simp add: re_defs group_def readline_def)
  have "contains ''Tournament'' (curline ?pt)
       \<and> re_match tournament_header_re (curline ?pt) = Some ?mt
       \<and> Fraction (group ?mt ''buyin'') = Inr 1 \<and> Fraction (group ?mt ''rake'') = Inr (1 / 10)
       \<and> Game_of (group ?mt ''game'') = Inr HOLDEM \<and> Limit_of (group ?mt ''limit'') = Inr NL
       \<and> Fraction (group ?mt ''sb'') = Inr 10 \<and> Fraction (group ?mt ''bb'') = Inr 20
       \<and> Currency_of (group ?mt ''currency'') = Inr USD
       \<and> re_match table_re (curline (readline ?pt)) = Some ?m2
       \<and> int_group (group ?m2 ''seats'') = Inr 2 \<and> int_group (group ?m2 ''button'') = Inr 1"
    by (simp add: run_defs)
  from header_shape_selected [of ?pt ?mt _ _ _ ?m2 2 1 1 "1 / 10" HOLDEM NL,
      THEN conjunct2, THEN conjunct2, THEN conjunct1, rule_format, OF this]
  have c: "parse_header ?pt
     = Inr (\<lparr>buyin = Some 1, tournament_ident = Some ''7'', tournament_level = Some ''I'',
             rake = Some (1 / 10), game = Some HOLDEM, limit = Some NL,
             game_type = Some ''Tournament'', sb = 10, bb = 20, ident = Some ''9'',
             currency = USD, table_name = Some ''T'', max_players = 2, button = 1\<rparr>,
            \<lparr>content = [], stream = [], curline = []\<rparr>)"
    by (simp add: re_defs group_def readline_def)
  have "contains ''Tournament'' (curline ?px)
      \<and> re_match tournament_header_re (curline ?px) = None"
    by (simp add: re_defs)
  then have d: "isl (parse_header ?px)"
    using header_shape_selected [of ?px, THEN conjunct2, THEN conjunct2, THEN conjunct2] by simp
  from a b c d show ?thesis
    by simp
qed


text \<open>
  The counterexample to C2 as stated: a line of the cash-game shape whose date holds the
  word \<open>Tournament\<close>. Exactly one shape matches it, yet header parsing does not go on:
  only the tournament shape is tried, and the hand ends in \<open>AttributeError\<close>.
\<close>

theorem header_both_shapes_counterexample:
  "re_match cash_header_re
     (''PokerStars Hand #1:  Hold'' @ [CHR 0x27] @ ''em No Limit ($1/$2 USD) - Tournament'' @ nl)
     \<noteq> None
   \<and> re_match tournament_header_re
     (''PokerStars Hand #1:  Hold'' @ [CHR 0x27] @ ''em No Limit ($1/$2 USD) - Tournament'' @ nl)
     = None
   \<and> parse (fresh (''PokerStars Hand #1:  Hold'' @ [CHR 0x27]
        @ ''em No Limit ($1/$2 USD) - Tournament'' @ nl @ ex_table @ ex_seat @ ex_blind))
     = Inl AttributeError"
  by (simp add: fresh_def run_defs)



section \<open>What each section parser changes in the record\<close>

definition the_actions :: "PlayerAction list option \<Rightarrow> PlayerAction list" where
  "the_actions a = (case a of None \<Rightarrow> [] | Some xs \<Rightarrow> xs)"

definition all_actions :: "HandHistory \<Rightarrow> PlayerAction list" where
  "all_actions hh =
     blinds hh @ the_actions (preflopactions hh) @ the_actions (flopactions hh)
       @ the_actions (turnactions hh) @ the_actions (riveractions hh)"

definition amount_rule :: "PlayerAction \<Rightarrow> bool" where
  "amount_rule pa \<longleftrightarrow> (amount pa \<noteq> None) = (action_kind pa \<in> {BLIND, ANTE, BET, RAISE})"

definition same_actions :: "HandHistory \<Rightarrow> HandHistory \<Rightarrow> bool" where
  "same_actions hh hh' \<longleftrightarrow>
     blinds hh' = blinds hh \<and> preflopactions hh' = preflopactions hh
     \<and> flopactions hh' = flopactions hh \<and> turnactions hh' = turnactions hh
     \<and> riveractions hh' = riveractions hh"

lemma same_actions_refl [simp]: "same_actions hh hh"
  by (simp add: same_actions_def)

lemma init_fields:
  "blinds (HandHistory_init pr) = []" "preflopactions (HandHistory_init pr) = None"
  "flopactions (HandHistory_init pr) = None" "turnactions (HandHistory_init pr) = None"
  "riveractions (HandHistory_init pr) = None" "board (HandHistory_init pr) = []"
  by (simp_all add: HandHistory_init_def properties.extend_def HandHistory.fields_def)

lemma seat_line_frame:
  "seat_line hh m = Inr hh' \<Longrightarrow> same_actions hh hh' \<and> board hh' = board hh"
  by (auto simp: seat_line_def same_actions_def split: sum.splits)

lemma players_loop_frame:
  "players_loop hh m p = Inr (hh', p') \<Longrightarrow> same_actions hh hh' \<and> board hh' = board hh"
proof (induction hh m p rule: players_loop.induct)
  case (1 hh m p)
  from "1.prems" obtain h1 where h1: "seat_line hh m = Inr h1"
    by (subst (asm) players_loop.simps) (auto split: sum.splits)
  show ?case
  proof (cases "re_match seat_re (curline (readline p))")
    case None
    with "1.prems" h1 have "hh' = h1"
      by (subst (asm) players_loop.simps) simp
    with seat_line_frame [OF h1] show ?thesis
      by simp
  next
    case (Some m')
    with "1.prems" h1 have "players_loop h1 m' (readline p) = Inr (hh', p')"
      by (subst (asm) players_loop.simps) simp
    from "1.IH" [OF h1 Some this] seat_line_frame [OF h1] show ?thesis
      by (simp add: same_actions_def)
  qed
qed

lemma players_stage:
  "parse_players hh p = Inr (hh', p') \<Longrightarrow> same_actions hh hh' \<and> board hh' = board hh"
  by (auto simp: parse_players_def split: option.splits sum.splits dest: players_loop_frame)

lemma blind_line_frame:
  "blind_line hh m = Inr hh' \<Longrightarrow>
   (\<exists>pa. blinds hh' = blinds hh @ [pa] \<and> action_kind pa = BLIND \<and> amount pa \<noteq> None)
   \<and> preflopactions hh' = preflopactions hh \<and> flopactions hh' = flopactions hh
   \<and> turnactions hh' = turnactions hh \<and> riveractions hh' = riveractions hh
   \<and> board hh' = board hh"
  by (auto simp: blind_line_def split: sum.splits prod.splits)

lemma blinds_loop_frame:
  "blinds_loop hh m p = Inr (hh', p') \<Longrightarrow> list_all amount_rule (blinds hh) \<Longrightarrow>
   list_all amount_rule (blinds hh')
   \<and> preflopactions hh' = preflopactions hh \<and> flopactions hh' = flopactions hh
   \<and> turnactions hh' = turnactions hh \<and> riveractions hh' = riveractions hh
   \<and> board hh' = board hh"
proof (induction hh m p rule: blinds_loop.induct)
  case (1 hh m p)
  from "1.prems"(1) obtain h1 where h1: "blind_line hh m = Inr h1"
    by (subst (asm) blinds_loop.simps) (auto split: sum.splits)
  from blind_line_frame [OF h1] obtain pa where
    pa: "blinds h1 = blinds hh @ [pa]" "action_kind pa = BLIND" "amount pa \<noteq> None"
    by blast
  from pa(2,3) have "amount_rule pa"
    by (simp add: amount_rule_def)
  with pa(1) "1.prems"(2) have ok: "list_all amount_rule (blinds h1)"
    by simp
  show ?case
  proof (cases "re_match blind_re (curline (readline p))")
    case None
    with "1.prems"(1) h1 have "hh' = h1"
      by (subst (asm) blinds_loop.simps) simp
    with ok blind_line_frame [OF h1] show ?thesis
      by simp
  next
    case (Some m')
    with "1.prems"(1) h1 have "blinds_loop h1 m' (readline p) = Inr (hh', p')"
      by (subst (asm) blinds_loop.simps) simp
    from "1.IH" [OF h1 Some this ok] blind_line_frame [OF h1] show ?thesis
      by simp
  qed
qed

lemma blinds_stage:
  "parse_blinds hh p = Inr (hh', p') \<Longrightarrow>
   list_all amount_rule (blinds hh')
   \<and> preflopactions hh' = preflopactions hh \<and> flopactions hh' = flopactions hh
   \<and> turnactions hh' = turnactions hh \<and> riveractions hh' = riveractions hh
   \<and> board hh' = board hh"
  by (auto simp: parse_blinds_def split: option.splits sum.splits dest!: blinds_loop_frame)

lemma hero_stage: "parse_hero hh p = Inr (hh', p') \<Longrightarrow> hh' = hh"
  by (auto simp: parse_hero_def Let_def ebind_Inr split: option.splits if_splits)

lemma street_action_rule: "street_action hh m = Inr pa \<Longrightarrow> amount_rule pa"
  by (auto simp: street_action_def amount_rule_def Action_of_def
      split: sum.splits prod.splits if_splits)

lemma street_loop_rule:
  "street_loop hh acts m p = Inr (acts', p') \<Longrightarrow> list_all amount_rule acts \<Longrightarrow>
   list_all amount_rule acts'"
proof (induction hh acts m p rule: street_loop.induct)
  case (1 hh acts m p)
  from "1.prems"(1) obtain pa where pa: "street_action hh m = Inr pa"
    by (subst (asm) street_loop.simps) (auto split: sum.splits)
  with "1.prems"(2) have ok: "list_all amount_rule (acts @ [pa])"
    by (simp add: street_action_rule)
  show ?case
  proof (cases "re_match action_re (curline (readline p))")
    case None
    with "1.prems"(1) pa have "acts' = acts @ [pa]"
      by (subst (asm) street_loop.simps) simp
    with ok show ?thesis
      by simp
  next
    case (Some m')
    with "1.prems"(1) pa have "street_loop hh (acts @ [pa]) m' (readline p) = Inr (acts', p')"
      by (subst (asm) street_loop.simps) simp
    from "1.IH" [OF pa Some this ok] show ?thesis .
  qed
qed

lemma parse_street_rule: "parse_street hh p = Inr (acts, p') \<Longrightarrow> list_all amount_rule acts"
  by (auto simp: parse_street_def split: option.splits dest: street_loop_rule)

lemma preflop_stage:
  "parse_preflop hh p = Inr (hh', p') \<Longrightarrow>
   blinds hh' = blinds hh \<and> list_all amount_rule (the_actions (preflopactions hh'))
   \<and> flopactions hh' = flopactions hh \<and> turnactions hh' = turnactions hh
   \<and> riveractions hh' = riveractions hh \<and> board hh' = board hh"
  by (auto simp: parse_preflop_def the_actions_def split: sum.splits dest: parse_street_rule)

lemma flop_stage:
  "parse_flop hh p = Inr (hh', p') \<Longrightarrow>
   blinds hh' = blinds hh \<and> preflopactions hh' = preflopactions hh
   \<and> turnactions hh' = turnactions hh \<and> riveractions hh' = riveractions hh
   \<and> ((flopactions hh' = flopactions hh \<and> board hh' = board hh)
      \<or> (flopactions hh' \<noteq> None \<and> list_all amount_rule (the_actions (flopactions hh'))
          \<and> length (board hh') = 3))"
  by (auto simp: parse_flop_def the_actions_def ebind_Inr split: option.splits
      dest: parse_street_rule)

lemma turn_stage:
  "parse_turn hh p = Inr (hh', p') \<Longrightarrow>
   blinds hh' = blinds hh \<and> preflopactions hh' = preflopactions hh
   \<and> flopactions hh' = flopactions hh \<and> riveractions hh' = riveractions hh
   \<and> ((turnactions hh' = turnactions hh \<and> board hh' = board hh)
      \<or> (turnactions hh' \<noteq> None \<and> list_all amount_rule (the_actions (turnactions hh'))
          \<and> (\<exists>c. board hh' = board hh @ [c])
          \<and> (length (board hh) = 3 \<or> length (board hh) = 4)))"
  by (auto simp: parse_turn_def the_actions_def ebind_Inr Board_append_def
      split: option.splits if_splits dest: parse_street_rule)

lemma river_stage:
  "parse_river hh p = Inr (hh', p') \<Longrightarrow>
   blinds hh' = blinds hh \<and> preflopactions hh' = preflopactions hh
   \<and> flopactions hh' = flopactions hh \<and> turnactions hh' = turnactions hh
   \<and> ((riveractions hh' = riveractions hh \<and> board hh' = board hh)
      \<or> (riveractions hh' \<noteq> None \<and> list_all amount_rule (the_actions (riveractions hh'))
          \<and> (\<exists>c. board hh' = board hh @ [c])
          \<and> (length (board hh) = 3 \<or> length (board hh) = 4)))"
  by (auto simp: parse_river_def the_actions_def ebind_Inr Board_append_def
      split: option.splits if_splits dest: parse_street_rule)

lemma shows_line_frame:
  "shows_line hh m = Inr hh' \<Longrightarrow> same_actions hh hh' \<and> board hh' = board hh"
  by (auto simp: shows_line_def same_actions_def split: sum.splits prod.splits)

lemma shows_loop_frame:
  "shows_loop hh m p = Inr (hh', p') \<Longrightarrow> same_actions hh hh' \<and> board hh' = board hh"
proof (induction hh m p rule: shows_loop.induct)
  case (1 hh m p)
  from "1.prems" obtain h1 where h1: "shows_line hh m = Inr h1"
    by (subst (asm) shows_loop.simps) (auto split: sum.splits)
  show ?case
  proof (cases "re_match showdown_re (curline (readline p))")
    case None
    with "1.prems" h1 have "hh' = h1"
      by (subst (asm) shows_loop.simps) simp
    with shows_line_frame [OF h1] show ?thesis
      by simp
  next
    case (Some m')
    with "1.prems" h1 have "shows_loop h1 m' (readline p) = Inr (hh', p')"
      by (subst (asm) shows_loop.simps) simp
    from "1.IH" [OF h1 Some this] shows_line_frame [OF h1] show ?thesis
      by (simp add: same_actions_def)
  qed
qed

lemma showdown_stage:
  "parse_showdown hh p = Inr (hh', p') \<Longrightarrow> same_actions hh hh' \<and> board hh' = board hh"
  by (auto simp: parse_showdown_def same_actions_def split: option.splits sum.splits if_splits
      dest!: shows_loop_frame)


lemma parse_record:
  assumes "parse p = Inr (hh, p')"
  shows "list_all amount_rule (all_actions hh)"
    and "length (board hh) = (if flopactions hh \<noteq> None then 3 else 0)
      + (if turnactions hh \<noteq> None then 1 else 0) + (if riveractions hh \<noteq> None then 1 else 0)"
    and "length (board hh) \<in> {0, 3, 4, 5}"
proof -
  from assms obtain pr p1 hh2 p2 hh3 p3 hh4 p4 hh5 p5 hh6 p6 hh7 p7 hh8 p8 where
    h: "parse_header (seek_next_header p) = Inr (pr, p1)"
      "parse_players (HandHistory_init pr) p1 = Inr (hh2, p2)"
      "parse_blinds hh2 p2 = Inr (hh3, p3)"
      "parse_hero hh3 p3 = Inr (hh4, p4)"
      "parse_preflop hh4 p4 = Inr (hh5, p5)"
      "parse_flop hh5 p5 = Inr (hh6, p6)"
      "parse_turn hh6 p6 = Inr (hh7, p7)"
      "parse_river hh7 p7 = Inr (hh8, p8)"
      "parse_showdown hh8 p8 = Inr (hh, p')"
    by (rule parse_stages)
  note i = init_fields [of pr]
  from players_stage [OF h(2)] i have s2:
    "flopactions hh2 = None" "turnactions hh2 = None" "riveractions hh2 = None" "board hh2 = []"
    by (simp_all add: same_actions_def)
  from blinds_stage [OF h(3)] s2 have s3: "list_all amount_rule (blinds hh3)"
    "flopactions hh3 = None" "turnactions hh3 = None" "riveractions hh3 = None" "board hh3 = []"
    by simp_all
  from hero_stage [OF h(4)] s3 have s4: "list_all amount_rule (blinds hh4)"
    "flopactions hh4 = None" "turnactions hh4 = None" "riveractions hh4 = None" "board hh4 = []"
    by simp_all
  from preflop_stage [OF h(5)] s4 have s5: "list_all amount_rule (blinds hh5)"
    "list_all amount_rule (the_actions (preflopactions hh5))"
    "flopactions hh5 = None" "turnactions hh5 = None" "riveractions hh5 = None" "board hh5 = []"
    by simp_all
  from flop_stage [OF h(6)] s5 have s6: "list_all amount_rule (blinds hh6)"
    "list_all amount_rule (the_actions (preflopactions hh6))"
    "list_all amount_rule (the_actions (flopactions hh6))"
    "turnactions hh6 = None" "riveractions hh6 = None"
    "length (board hh6) = (if flopactions hh6 \<noteq> None then 3 else 0)"
    by (auto simp: the_actions_def)
  from turn_stage [OF h(7)] s6 have s7: "list_all amount_rule (blinds hh7)"
    "list_all amount_rule (the_actions (preflopactions hh7))"
    "list_all amount_rule (the_actions (flopactions hh7))"
    "list_all amount_rule (the_actions (turnactions hh7))"
    "riveractions hh7 = None"
    "length (board hh7) = (if flopactions hh7 \<noteq> None then 3 else 0)
       + (if turnactions hh7 \<noteq> None then 1 else 0)"
    "length (board hh7) \<in> {0, 3, 4}"
    by (auto simp: the_actions_def split: if_splits)
  from river_stage [OF h(8)] s7 have s8: "list_all amount_rule (blinds hh8)"
    "list_all amount_rule (the_actions (preflopactions hh8))"
    "list_all amount_rule (the_actions (flopactions hh8))"
    "list_all amount_rule (the_actions (turnactions hh8))"
    "list_all amount_rule (the_actions (riveractions hh8))"
    "length (board hh8) = (if flopactions hh8 \<noteq> None then 3 else 0)
       + (if turnactions hh8 \<noteq> None then 1 else 0) + (if riveractions hh8 \<noteq> None then 1 else 0)"
    "length (board hh8) \<in> {0, 3, 4, 5}"
    by (auto simp: the_actions_def split: if_splits)
  from showdown_stage [OF h(9)] s8 show "list_all amount_rule (all_actions hh)"
    by (simp add: same_actions_def all_actions_def)
  from showdown_stage [OF h(9)] s8 show "length (board hh) = (if flopactions hh \<noteq> None then 3 else 0)
      + (if turnactions hh \<noteq> None then 1 else 0) + (if riveractions hh \<noteq> None then 1 else 0)"
    by (simp add: same_actions_def)
  from showdown_stage [OF h(9)] s8 show "length (board hh) \<in> {0, 3, 4, 5}"
    by (simp add: same_actions_def)
qed

section \<open>Amounts of the actions\<close>

text \<open>
  C8. In every record that \<open>parse\<close> returns, each action of the blinds and of the four
  streets carries an amount exactly when its kind is blind, ante, bet or raise: a check,
  a fold and a call carry none, whatever amount their line shows.
\<close>

theorem actions_amount_rule:
  "parse p = Inr (hh, p') \<Longrightarrow>
   \<forall>pa \<in> set (all_actions hh).
     (amount pa \<noteq> None) = (action_kind pa \<in> {BLIND, ANTE, BET, RAISE})"
  using parse_record(1) [of p hh p'] by (simp add: list_all_iff amount_rule_def)

theorem actions_amount_rule_witness:
  "map_sum id (list_all amount_rule \<circ> all_actions \<circ> fst)
     (parse (fresh (ex_header @ ex_table @ ex_seat @ ex_blind
        @ ''Alice: raises $4.00 to $6'' @ nl @ ''Alice: calls $4'' @ nl @ ''Alice: folds '' @ nl)))
   = Inr True"
proof -
  let ?t = "ex_header @ ex_table @ ex_seat @ ex_blind
        @ ''Alice: raises $4.00 to $6'' @ nl @ ''Alice: calls $4'' @ nl @ ''Alice: folds '' @ nl"
  have "case parse (fresh ?t) of Inl e \<Rightarrow> False
        | Inr (hh, p) \<Rightarrow> length (the_actions (preflopactions hh)) = 3"
    by (simp add: fresh_def run_defs the_actions_def)
  then obtain hh p where e: "parse (fresh ?t) = Inr (hh, p)"
    by (auto split: sum.splits)
  from actions_amount_rule [OF e] have "list_all amount_rule (all_actions hh)"
    by (simp add: list_all_iff amount_rule_def)
  with e show ?thesis
    by simp
qed

section \<open>The length of the board\<close>





section \<open>A stream that ends inside a hand\<close>

lemma parse_table_end: "curline p = [] \<Longrightarrow> parse_table m t s b cur p = Inl (ParseException [])"
  by (simp add: parse_table_def table_re_empty)

lemma readline_end: "stream p = [] \<Longrightarrow> curline (readline p) = []"
  by (simp add: readline_def)

lemma parse_players_end: "curline p = [] \<Longrightarrow> parse_players hh p = Inl (ParseException [])"
  by (simp add: parse_players_def seat_re_empty)

lemma parse_blinds_end: "curline p = [] \<Longrightarrow> parse_blinds hh p = Inl (ParseException [])"
  by (simp add: parse_blinds_def blind_re_empty)

text \<open>
  C3, as amended. When the stream ends right after an accepted header line (the line
  matches its shape and its captured fields convert), right after the header's table
  line, or right after the seats section, so that the end of the stream stands where the
  table line, the first seat line or the first blind line is due, \<open>parse\<close> raises
  \<open>ParseException\<close> with the empty line read there, and returns no record. The exception
  carries that line only: it names no section.
\<close>

theorem parse_end_of_stream:
  "(header_match (curline (seek_next_header p)) = Inr (Some m, t)
      \<and> Fraction (group m ''sb'') = Inr s \<and> Fraction (group m ''bb'') = Inr b
      \<and> Currency_of (group m ''currency'') = Inr cur
      \<and> stream (seek_next_header p) = []
        \<longrightarrow> parse p = Inl (ParseException []))
   \<and> (parse_header (seek_next_header p) = Inr (pr, p1) \<and> curline p1 = []
        \<longrightarrow> parse p = Inl (ParseException []))
   \<and> (parse_header (seek_next_header p) = Inr (pr, p1)
        \<and> parse_players (HandHistory_init pr) p1 = Inr (hh2, p2) \<and> curline p2 = []
        \<longrightarrow> parse p = Inl (ParseException []))"
proof (intro conjI impI)
  assume "header_match (curline (seek_next_header p)) = Inr (Some m, t)
      \<and> Fraction (group m ''sb'') = Inr s \<and> Fraction (group m ''bb'') = Inr b
      \<and> Currency_of (group m ''currency'') = Inr cur
      \<and> stream (seek_next_header p) = []"
  then have "parse_header (seek_next_header p) = Inl (ParseException [])"
    by (simp add: parse_header_def parse_table_end readline_end)
  then show "parse p = Inl (ParseException [])"
    by (simp add: parse_def)
next
  assume "parse_header (seek_next_header p) = Inr (pr, p1) \<and> curline p1 = []"
  then show "parse p = Inl (ParseException [])"
    by (simp add: parse_def parse_players_end)
next
  assume "parse_header (seek_next_header p) = Inr (pr, p1)
        \<and> parse_players (HandHistory_init pr) p1 = Inr (hh2, p2) \<and> curline p2 = []"
  then show "parse p = Inl (ParseException [])"
    by (simp add: parse_def parse_blinds_end)
qed

theorem parse_end_of_stream_witness:
  "parse (fresh ex_header) = Inl (ParseException [])
   \<and> parse (fresh (ex_header @ ex_table)) = Inl (ParseException [])
   \<and> parse (fresh (ex_header @ ex_table @ ex_seat)) = Inl (ParseException [])"
proof -
  let ?m = "the (re_match cash_header_re ex_header)"
  have "header_match (curline (seek_next_header (fresh ex_header)))
        = Inr (Some ?m, no_tournament_keys)
      \<and> Fraction (group ?m ''sb'') = Inr 1 \<and> Fraction (group ?m ''bb'') = Inr 2
      \<and> Currency_of (group ?m ''currency'') = Inr USD
      \<and> stream (seek_next_header (fresh ex_header)) = []"
    by (simp add: fresh_def run_defs)
  from parse_end_of_stream [of "fresh ex_header" ?m no_tournament_keys 1 2 USD,
      THEN conjunct1, rule_format, OF this]
  have a: "parse (fresh ex_header) = Inl (ParseException [])" .
  have "case parse_header (seek_next_header (fresh (ex_header @ ex_table))) of
          Inl e \<Rightarrow> False | Inr (pr, p1) \<Rightarrow> curline p1 = []"
    by (simp add: fresh_def run_defs)
  from case_sum_prodE [OF this] obtain pr p1 where
    "parse_header (seek_next_header (fresh (ex_header @ ex_table))) = Inr (pr, p1) \<and> curline p1 = []"
    by blast
  then have b: "parse (fresh (ex_header @ ex_table)) = Inl (ParseException [])"
    using parse_end_of_stream [of "fresh (ex_header @ ex_table)" _ _ _ _ _ pr p1,
        THEN conjunct2, THEN conjunct1]
    by simp
  have "case parse_header (seek_next_header (fresh (ex_header @ ex_table @ ex_seat))) of
          Inl e \<Rightarrow> False
        | Inr (pr, p1) \<Rightarrow>
            (case parse_players (HandHistory_init pr) p1 of
               Inl e \<Rightarrow> False | Inr (hh2, p2) \<Rightarrow> curline p2 = [])"
    by (simp add: fresh_def run_defs)
  from case_sum_prodE [OF this] obtain pr' p1' where
    h: "parse_header (seek_next_header (fresh (ex_header @ ex_table @ ex_seat))) = Inr (pr', p1')"
    and "case parse_players (HandHistory_init pr') p1' of
           Inl e \<Rightarrow> False | Inr (hh2, p2) \<Rightarrow> curline p2 = []"
    by blast
  from case_sum_prodE [OF this(2)] obtain hh2 p2 where
    "parse_players (HandHistory_init pr') p1' = Inr (hh2, p2) \<and> curline p2 = []"
    by blast
  with h have c: "parse (fresh (ex_header @ ex_table @ ex_seat)) = Inl (ParseException [])"
    using parse_end_of_stream [of "fresh (ex_header @ ex_table @ ex_seat)" _ _ _ _ _ pr' p1' hh2 p2,
        THEN conjunct2, THEN conjunct2]
    by simp
  from a b c show ?thesis
    by simp
qed

text \<open>
  The counterexample to C3 as stated: the stream ends right after the flop marker, in
  the middle of the hand, and \<open>parse\<close> returns a record.
\<close>

theorem truncated_after_flop_counterexample:
  "\<not> isl (parse (fresh (ex_header @ ex_table @ ex_seat @ ex_blind
      @ ''*** FLOP *** [Ah 7d 5d]'' @ nl)))"
  by (simp add: fresh_def run_defs)


section \<open>Iterating over the hands of a stream\<close>

text \<open>
  The lines of a text, as \<open>readline\<close> returns them one after the other, and the lines
  that \<open>__seek_next_header\<close> takes for a header.
\<close>

function lines_of :: "string \<Rightarrow> string list" where
  "lines_of s = (if s = [] then [] else fst (readline_str s) # lines_of (snd (readline_str s)))"
  by pat_completeness auto
termination
proof (relation "measure length")
  show "wf (measure length)"
    by simp
next
  fix s :: string
  assume "s \<noteq> []"
  then show "(snd (readline_str s), s) \<in> measure length"
    using readline_str_length [of s] readline_str_empty [of s]
    by (cases "fst (readline_str s)") auto
qed

declare lines_of.simps [simp del]

definition is_header :: "string \<Rightarrow> bool" where
  "is_header l = startswith l ''PokerStars''"

lemma histories_loop_no_header:
  "\<forall>l \<in> set (lines_of s). \<not> is_header l \<Longrightarrow> \<not> is_header cur \<Longrightarrow>
   histories_loop (seek_next_header \<lparr>content = c, stream = s, curline = cur\<rparr>)
     = ([], Inr \<lparr>content = c, stream = [], curline = []\<rparr>)"
proof (induction s arbitrary: cur rule: lines_of.induct)
  case (1 s)
  show ?case
  proof (cases "s = []")
    case True
    have "seek_next_header \<lparr>content = c, stream = s, curline = cur\<rparr>
        = \<lparr>content = c, stream = [], curline = []\<rparr>"
      using True "1.prems"(2)
      by (subst seek_next_header.simps) (simp add: is_header_def readline_def)
    then show ?thesis
      by (simp add: histories_loop.simps)
  next
    case False
    let ?l = "fst (readline_str s)" and ?r = "snd (readline_str s)"
    from False have l: "?l \<noteq> []"
      by (simp add: readline_str_empty)
    have rd: "readline \<lparr>content = c, stream = s, curline = cur\<rparr>
        = \<lparr>content = c, stream = ?r, curline = ?l\<rparr>"
      by (simp add: readline_def split: prod.splits)
    have sk: "seek_next_header \<lparr>content = c, stream = s, curline = cur\<rparr>
        = seek_next_header \<lparr>content = c, stream = ?r, curline = ?l\<rparr>"
      using "1.prems"(2) l rd
      by (subst seek_next_header.simps) (simp add: is_header_def)
    have ln: "lines_of s = ?l # lines_of ?r"
      using False by (subst lines_of.simps) simp
    with "1.prems"(1) have "\<not> is_header ?l" and "\<forall>l \<in> set (lines_of ?r). \<not> is_header l"
      by simp_all
    from "1.IH" [OF False this(2) this(1)] sk show ?thesis
      by simp
  qed
qed

lemma histories_no_header:
  "\<forall>l \<in> set (lines_of t). \<not> is_header l \<Longrightarrow>
   histories (fresh t) = ([], Inr \<lparr>content = t, stream = [], curline = []\<rparr>)"
  using histories_loop_no_header [of t "[]" t]
  by (simp add: histories_def fresh_def is_header_def)

text \<open>
  C1. The specification: a stream with N header lines, each beginning a well-formed hand,
  yields exactly N records. On the code, a stream that holds one hand with the hero's
  line \<open>Dealt to Alice [Ah Kd]\<close> yields no record: the iteration ends with the failure of
  \<open>_parse_hero\<close> (see C4). The part of the sentence about a stream with no header line
  holds: \<open>histories_no_header\<close>.
\<close>

theorem histories_hero_hand_raises:
  "histories (fresh (ex_header @ ex_table @ ex_seat @ ex_blind @ ''*** HOLE CARDS ***'' @ nl
                     @ ''Dealt to Alice [Ah Kd]'' @ nl @ ''Alice: folds '' @ nl
                     @ ''*** SUMMARY ***'' @ nl))
   = ([], Inl NameResolutionFailure)"
  by (simp add: fresh_def histories_def histories_loop.simps run_defs)

section \<open>A second pass over the same stream\<close>








end
